theory Spec2Isabelle
  imports Main "HOL-Library.Sublist" "HOL-Library.Monad_Syntax"
begin

section \<open>The custom home page grid (CustomHomepageGrid.tsx)\<close>

text \<open>
  A shallow embedding of the state logic of
  \<^verbatim>\<open>plugins/home/src/components/CustomHomepage/CustomHomepageGrid.tsx\<close>:
  the storage hook \<^verbatim>\<open>useHomeStorage\<close>, the default layout builder
  \<^verbatim>\<open>convertConfigToDefaultWidgets\<close> and the handlers of the component
  \<^verbatim>\<open>CustomHomepageGrid\<close> that add, remove, clear, restore, switch the edit mode
  and take a layout change. Rendering, the catalog filter and
  \<^verbatim>\<open>handleSettingsSave\<close> are not modelled.
\<close>

subsection \<open>Numbers\<close>

text \<open>
  The grid works in whole cells, so a JavaScript number is an integer here, with one
  more value: \<^verbatim>\<open>Math.max()\<close> of no arguments is \<^verbatim>\<open>-Infinity\<close>, which the
  component computes when it adds to an empty grid. Fractions, \<^verbatim>\<open>+Infinity\<close> and
  \<^verbatim>\<open>NaN\<close> are outside this number type.
\<close>

datatype number = NegInfinity | Finite int

instantiation number :: linorder
begin

fun less_eq_number :: "number \<Rightarrow> number \<Rightarrow> bool" where
  "less_eq_number NegInfinity b = True"
| "less_eq_number (Finite a) NegInfinity = False"
| "less_eq_number (Finite a) (Finite b) = (a \<le> b)"

definition less_number :: "number \<Rightarrow> number \<Rightarrow> bool" where
  "less_number a b = (a \<le> b \<and> \<not> b \<le> a)"

instance
proof
  fix a b c :: number
  show "(a < b) = (a \<le> b \<and> \<not> b \<le> a)"
    by (simp add: less_number_def)
  show "a \<le> a"
    by (cases a) simp_all
  show "a \<le> b \<Longrightarrow> b \<le> c \<Longrightarrow> a \<le> c"
    by (cases a; cases b; cases c) simp_all
  show "a \<le> b \<Longrightarrow> b \<le> a \<Longrightarrow> a = b"
    by (cases a; cases b) simp_all
  show "a \<le> b \<or> b \<le> a"
    by (cases a; cases b) auto
qed

end

instantiation number :: plus
begin

fun plus_number :: "number \<Rightarrow> number \<Rightarrow> number" where
  "plus_number (Finite a) (Finite b) = Finite (a + b)"
| "plus_number NegInfinity b = NegInfinity"
| "plus_number a NegInfinity = NegInfinity"

instance ..

end

text \<open>\<^verbatim>\<open>Math.min(a, b)\<close>, and \<^verbatim>\<open>Math.max(...xs)\<close> of an argument list.\<close>

definition Math_min :: "number \<Rightarrow> number \<Rightarrow> number" where
  "Math_min a b = min a b"

definition Math_max :: "number list \<Rightarrow> number" where
  "Math_max xs = foldr max xs NegInfinity"

text \<open>\<^verbatim>\<open>Number.MAX_VALUE\<close>, the largest finite double: \<open>(2^53 - 1) * 2^971\<close>.\<close>

definition Number_MAX_VALUE :: number where
  "Number_MAX_VALUE = Finite ((2 ^ 53 - 1) * 2 ^ 971)"

text \<open>
  \<^verbatim>\<open>a ?? b\<close>: the left operand unless it is \<^verbatim>\<open>undefined\<close> (or \<^verbatim>\<open>null\<close>).
\<close>

definition nullish :: "'a option \<Rightarrow> 'a \<Rightarrow> 'a" where
  "nullish a b = (case a of None \<Rightarrow> b | Some v \<Rightarrow> v)"

text \<open>The decimal text of an array index or length, as a template literal prints it.\<close>

fun toString :: "nat \<Rightarrow> string" where
  "toString n =
     (if n < 10 then [''0123456789'' ! n]
      else toString (n div 10) @ [''0123456789'' ! (n mod 10)])"

declare toString.simps [simp del]

subsection \<open>JSON values\<close>

text \<open>
  The value \<^verbatim>\<open>JSON.parse\<close> returns and \<^verbatim>\<open>JSON.stringify\<close> serialises: an object is
  its list of properties.
\<close>

datatype json =
    JNull
  | JBool bool
  | JNum int
  | JStr string
  | JArr "json list"
  | JObj "(string \<times> json) list"

text \<open>
  The text layer of JSON belongs to the platform. It is a parameter of the model:
  \<open>stringify\<close> prints a JSON value, \<open>parse\<close> reads a text, and \<open>None\<close> stands for
  the \<^verbatim>\<open>SyntaxError\<close> it throws on a malformed text.
\<close>

record JSON =
  stringify :: "json \<Rightarrow> string"
  parse :: "string \<Rightarrow> json option"

subsection \<open>The types of the component\<close>

text \<open>
  A field \<open>f\<close> of a source type is written with a short prefix: \<open>l_f\<close> in a
  \<open>Layout\<close>, \<open>gw_f\<close> in a \<open>GridWidget\<close>, \<open>w_f\<close> in a catalog \<open>Widget\<close> and
  \<open>c_f\<close> in a \<open>LayoutConfiguration\<close>. An optional property is an \<open>option\<close>:
  \<open>None\<close> is \<^verbatim>\<open>undefined\<close>.

  \<open>Layout\<close> is the item type of the grid engine with the properties this
  component writes.
\<close>

record Layout =
  l_i :: string
  l_x :: number
  l_y :: number
  l_w :: number
  l_h :: number
  l_minW :: "number option"
  l_maxW :: "number option"
  l_minH :: "number option"
  l_maxH :: "number option"
  l_isDraggable :: bool
  l_isResizable :: bool

text \<open>
  A placement. The declared type has a string \<open>id\<close> and a \<open>settings\<close> object;
  \<^verbatim>\<open>handleLayoutChange\<close> can build one with neither (it spreads the result of a
  \<^verbatim>\<open>find\<close> that found nothing and casts), so both are optional here. Settings
  values are JSON values.
\<close>

record GridWidget =
  gw_id :: "string option"
  gw_layout :: Layout
  gw_settings :: "(string \<times> json) list option"

text \<open>
  A catalog entry, with the fields the modelled functions read (title, description,
  settings schema and the element to render are left out).
\<close>

record Widget =
  w_name :: string
  w_width :: "number option"
  w_minWidth :: "number option"
  w_maxWidth :: "number option"
  w_height :: "number option"
  w_minHeight :: "number option"
  w_maxHeight :: "number option"

text \<open>
  The \<open>component\<close> of a configuration entry is a React element, of which only its
  \<^verbatim>\<open>core.extensionName\<close> component data matters (it may have none), or a name.
\<close>

datatype component = Element "string option" | Name string

record LayoutConfiguration =
  c_component :: component
  c_x :: number
  c_y :: number
  c_width :: number
  c_height :: number

text \<open>The persisted document: \<^verbatim>\<open>{version: 1, pages: {default: ...}}\<close>.\<close>

record CustomHomepageGridStateV1 =
  version :: int
  pages_default :: "GridWidget list"

datatype error = SyntaxError | ZodError

subsection \<open>What \<^verbatim>\<open>JSON.stringify\<close> serialises\<close>

text \<open>
  \<^verbatim>\<open>JSON.stringify\<close> leaves out a property whose value is \<^verbatim>\<open>undefined\<close>
  (\<open>object\<close> below) and writes \<^verbatim>\<open>null\<close> for a number that is not finite. The
  order of the properties of an object is fixed here (a record does not keep the order
  they were written in).
\<close>

definition object :: "(string \<times> json option) list \<Rightarrow> json" where
  "object props = JObj (List.map_filter (\<lambda>(k, v). map_option (Pair k) v) props)"

definition number_toJSON :: "number \<Rightarrow> json" where
  "number_toJSON n = (case n of NegInfinity \<Rightarrow> JNull | Finite k \<Rightarrow> JNum k)"

definition Layout_toJSON :: "Layout \<Rightarrow> json" where
  "Layout_toJSON l = object
     [(''i'', Some (JStr (l_i l))),
      (''x'', Some (number_toJSON (l_x l))),
      (''y'', Some (number_toJSON (l_y l))),
      (''w'', Some (number_toJSON (l_w l))),
      (''h'', Some (number_toJSON (l_h l))),
      (''minW'', map_option number_toJSON (l_minW l)),
      (''maxW'', map_option number_toJSON (l_maxW l)),
      (''minH'', map_option number_toJSON (l_minH l)),
      (''maxH'', map_option number_toJSON (l_maxH l)),
      (''isDraggable'', Some (JBool (l_isDraggable l))),
      (''isResizable'', Some (JBool (l_isResizable l)))]"

definition GridWidget_toJSON :: "GridWidget \<Rightarrow> json" where
  "GridWidget_toJSON g = object
     [(''id'', map_option JStr (gw_id g)),
      (''layout'', Some (Layout_toJSON (gw_layout g))),
      (''settings'', map_option JObj (gw_settings g))]"

definition grid_toJSON :: "CustomHomepageGridStateV1 \<Rightarrow> json" where
  "grid_toJSON grid = JObj
     [(''version'', JNum (version grid)),
      (''pages'', JObj [(''default'', JArr (map GridWidget_toJSON (pages_default grid)))])]"

subsection \<open>The schema of the persisted document\<close>

text \<open>
  The schemas are values of the validation library: \<open>None\<close> stands for the
  \<^verbatim>\<open>ZodError\<close> their \<^verbatim>\<open>parse\<close> throws. Properties a schema does not name are
  dropped.
\<close>

definition z_number :: "json \<Rightarrow> number option" where
  "z_number j = (case j of JNum n \<Rightarrow> Some (Finite n) | _ \<Rightarrow> None)"

definition z_string :: "json \<Rightarrow> string option" where
  "z_string j = (case j of JStr s \<Rightarrow> Some s | _ \<Rightarrow> None)"

definition z_boolean :: "json \<Rightarrow> bool option" where
  "z_boolean j = (case j of JBool b \<Rightarrow> Some b | _ \<Rightarrow> None)"

definition z_literal :: "int \<Rightarrow> json \<Rightarrow> int option" where
  "z_literal k j = (case j of JNum n \<Rightarrow> (if n = k then Some n else None) | _ \<Rightarrow> None)"

definition z_record :: "json \<Rightarrow> (string \<times> json) list option" where
  "z_record j = (case j of JObj kvs \<Rightarrow> Some kvs | _ \<Rightarrow> None)"

definition z_array :: "(json \<Rightarrow> 'a option) \<Rightarrow> json \<Rightarrow> 'a list option" where
  "z_array p j = (case j of JArr xs \<Rightarrow> those (map p xs) | _ \<Rightarrow> None)"

definition required :: "(json \<Rightarrow> 'a option) \<Rightarrow> (string \<times> json) list \<Rightarrow> string \<Rightarrow> 'a option" where
  "required p kvs k = (case map_of kvs k of None \<Rightarrow> None | Some j \<Rightarrow> p j)"

definition optional :: "(json \<Rightarrow> 'a option) \<Rightarrow> (string \<times> json) list \<Rightarrow> string \<Rightarrow> 'a option option" where
  "optional p kvs k = (case map_of kvs k of None \<Rightarrow> Some None | Some j \<Rightarrow> map_option Some (p j))"

text \<open>
  Modelled from the spec: \<^verbatim>\<open>./types\<close>, which declares the schema of a layout, is not
  among the sources. This follows the persisted document format of the spec, where a
  layout is \<^verbatim>\<open>{"i": string, "x": int, "y": int, "w": int, "h": int, "minW"?: int,
  "maxW"?: int, "minH"?: int, "maxH"?: int, "isDraggable": bool, "isResizable": bool}\<close>.
\<close>

definition LayoutSchema_parse :: "json \<Rightarrow> Layout option" where
  "LayoutSchema_parse j = (case j of
     JObj kvs \<Rightarrow> do {
       i \<leftarrow> required z_string kvs ''i'';
       x \<leftarrow> required z_number kvs ''x'';
       y \<leftarrow> required z_number kvs ''y'';
       w \<leftarrow> required z_number kvs ''w'';
       h \<leftarrow> required z_number kvs ''h'';
       minW \<leftarrow> optional z_number kvs ''minW'';
       maxW \<leftarrow> optional z_number kvs ''maxW'';
       minH \<leftarrow> optional z_number kvs ''minH'';
       maxH \<leftarrow> optional z_number kvs ''maxH'';
       isDraggable \<leftarrow> required z_boolean kvs ''isDraggable'';
       isResizable \<leftarrow> required z_boolean kvs ''isResizable'';
       Some \<lparr>l_i = i, l_x = x, l_y = y, l_w = w, l_h = h,
             l_minW = minW, l_maxW = maxW, l_minH = minH, l_maxH = maxH,
             l_isDraggable = isDraggable, l_isResizable = isResizable\<rparr>
     }
   | _ \<Rightarrow> None)"

text \<open>
  Modelled from the spec: \<^verbatim>\<open>./types\<close>, which declares the schema of a placement, is
  not among the sources. In the persisted document format of the spec a placement is
  \<^verbatim>\<open>{"id": string, "layout": {...}, "settings": object}\<close>.
\<close>

definition GridWidgetSchema_parse :: "json \<Rightarrow> GridWidget option" where
  "GridWidgetSchema_parse j = (case j of
     JObj kvs \<Rightarrow> do {
       ident \<leftarrow> required z_string kvs ''id'';
       layout \<leftarrow> required LayoutSchema_parse kvs ''layout'';
       settings \<leftarrow> required z_record kvs ''settings'';
       Some \<lparr>gw_id = Some ident, gw_layout = layout, gw_settings = Some settings\<rparr>
     }
   | _ \<Rightarrow> None)"

text \<open>
  Modelled from the spec: \<^verbatim>\<open>./types\<close>, which declares
  \<^verbatim>\<open>CustomHomepageGridStateV1Schema\<close>, is not among the sources. In the persisted
  document format of the spec the document is
  \<^verbatim>\<open>{"version": 1, "pages": {"default": [...]}}\<close>.
\<close>

definition CustomHomepageGridStateV1Schema_parse :: "json \<Rightarrow> CustomHomepageGridStateV1 option" where
  "CustomHomepageGridStateV1Schema_parse j = (case j of
     JObj kvs \<Rightarrow> do {
       v \<leftarrow> required (z_literal 1) kvs ''version'';
       pages \<leftarrow> required z_record kvs ''pages'';
       dflt \<leftarrow> required (z_array GridWidgetSchema_parse) pages ''default'';
       Some \<lparr>version = v, pages_default = dflt\<rparr>
     }
   | _ \<Rightarrow> None)"

subsection \<open>The storage hook: \<^verbatim>\<open>useHomeStorage\<close>\<close>

text \<open>
  The snapshot of the storage key \<^verbatim>\<open>home\<close>: its presence is unknown, absent, or
  present with the stored text.
\<close>

datatype StorageValueSnapshot = Unknown | Absent | Present string

text \<open>
  The body of the \<^verbatim>\<open>try\<close> block: \<^verbatim>\<open>JSON.parse(homeSnapshot.value!)\<close>, then
  \<^verbatim>\<open>CustomHomepageGridStateV1Schema.parse(grid).pages.default\<close>. A snapshot of
  unknown presence has no value, and \<^verbatim>\<open>JSON.parse(undefined)\<close> throws.
\<close>

definition useHomeStorage_try :: "JSON \<Rightarrow> StorageValueSnapshot \<Rightarrow> error + GridWidget list" where
  "useHomeStorage_try J homeSnapshot =
     (case (case homeSnapshot of Present s \<Rightarrow> parse J s | _ \<Rightarrow> None) of
        None \<Rightarrow> Inl SyntaxError
      | Some grid \<Rightarrow>
          (case CustomHomepageGridStateV1Schema_parse grid of
             None \<Rightarrow> Inl ZodError
           | Some g \<Rightarrow> Inr (pages_default g)))"

text \<open>The \<open>widgets\<close> the hook returns: the \<^verbatim>\<open>catch\<close> turns every error into the default.\<close>

definition useHomeStorage :: "JSON \<Rightarrow> StorageValueSnapshot \<Rightarrow> GridWidget list \<Rightarrow> GridWidget list" where
  "useHomeStorage J homeSnapshot defaultWidgets =
     (if homeSnapshot = Absent then defaultWidgets
      else (case useHomeStorage_try J homeSnapshot of
              Inl e \<Rightarrow> defaultWidgets
            | Inr ws \<Rightarrow> ws))"

text \<open>
  The state of the component: the snapshot of the store and the two React states.
  The store is read back as written: \<^verbatim>\<open>storageApi.set\<close> makes the text the next
  snapshot.
\<close>

record State =
  homeSnapshot :: StorageValueSnapshot
  editMode :: bool
  addWidgetDialogOpen :: bool

definition setWidgets :: "JSON \<Rightarrow> GridWidget list \<Rightarrow> State \<Rightarrow> State" where
  "setWidgets J v s =
     s\<lparr>homeSnapshot :=
         Present (stringify J (grid_toJSON \<lparr>version = 1, pages_default = v\<rparr>))\<rparr>"

subsection \<open>The default layout: \<^verbatim>\<open>convertConfigToDefaultWidgets\<close>\<close>

text \<open>
  \<^verbatim>\<open>LayoutConfigurationSchema\<close> is declared in \<^verbatim>\<open>./types\<close>, which is not among the
  sources: its \<^verbatim>\<open>parse\<close> is the parameter \<open>schema\<close>, and \<open>None\<close> stands for the
  \<^verbatim>\<open>ZodError\<close> it throws. \<^verbatim>\<open>Math.random().toString(36).slice(2)\<close> is the parameter
  \<open>random\<close>: the text drawn for the entry at an index.

  \<open>extensionName\<close> is the name of an entry's component:
  \<^verbatim>\<open>getComponentData(c.component, 'core.extensionName')\<close> of an element, the
  component itself when it is a name.

  \<open>convertConfig_entry\<close> is the callback of \<^verbatim>\<open>config.map\<close>. \<open>Inr None\<close> is the \<^verbatim>\<open>null\<close> it returns for an
  entry with no name (\<^verbatim>\<open>!name\<close> holds of \<^verbatim>\<open>undefined\<close> and of the empty string) or
  with a name no catalog widget has.
\<close>

definition extensionName :: "component \<Rightarrow> string option" where
  "extensionName cmp = (case cmp of Element d \<Rightarrow> d | Name n \<Rightarrow> Some n)"

definition convertConfig_entry ::
  "(LayoutConfiguration \<Rightarrow> LayoutConfiguration option) \<Rightarrow> (nat \<Rightarrow> string) \<Rightarrow> Widget list
     \<Rightarrow> LayoutConfiguration \<Rightarrow> nat \<Rightarrow> error + GridWidget option" where
  "convertConfig_entry schema random availableWidgets conf i =
     (case schema conf of
        None \<Rightarrow> Inl ZodError
      | Some c \<Rightarrow>
          (let name = extensionName (c_component c) in
           if name = None \<or> name = Some [] then Inr None
           else
             (case find (\<lambda>w. Some (w_name w) = name) availableWidgets of
                None \<Rightarrow> Inr None
              | Some widget \<Rightarrow>
                  (let widgetId = w_name widget @ ''__'' @ toString i @ random i in
                   Inr (Some
                     \<lparr>gw_id = Some widgetId,
                      gw_layout =
                        \<lparr>l_i = widgetId,
                         l_x = c_x c,
                         l_y = c_y c,
                         l_w = Math_min (nullish (w_maxWidth widget) Number_MAX_VALUE) (c_width c),
                         l_h = Math_min (nullish (w_maxHeight widget) Number_MAX_VALUE) (c_height c),
                         l_minW = w_minWidth widget,
                         l_maxW = w_maxWidth widget,
                         l_minH = w_minHeight widget,
                         l_maxH = w_maxHeight widget,
                         l_isDraggable = False,
                         l_isResizable = False\<rparr>,
                      gw_settings = Some []\<rparr>)))))"

text \<open>
  \<^verbatim>\<open>xs.map((x, i) => ...)\<close> with a callback that can throw: the first error ends
  the loop.
\<close>

fun Array_map :: "('a \<Rightarrow> nat \<Rightarrow> error + 'b) \<Rightarrow> 'a list \<Rightarrow> nat \<Rightarrow> error + 'b list" where
  "Array_map f [] i = Inr []"
| "Array_map f (x # xs) i =
     (case f x i of
        Inl e \<Rightarrow> Inl e
      | Inr y \<Rightarrow> (case Array_map f xs (Suc i) of Inl e \<Rightarrow> Inl e | Inr ys \<Rightarrow> Inr (y # ys)))"

text \<open>\<^verbatim>\<open>compact\<close> of lodash, on a list of objects and \<^verbatim>\<open>null\<close>s.\<close>

fun compact :: "'a option list \<Rightarrow> 'a list" where
  "compact [] = []"
| "compact (None # xs) = compact xs"
| "compact (Some x # xs) = x # compact xs"

definition convertConfigToDefaultWidgets ::
  "(LayoutConfiguration \<Rightarrow> LayoutConfiguration option) \<Rightarrow> (nat \<Rightarrow> string)
     \<Rightarrow> LayoutConfiguration list \<Rightarrow> Widget list \<Rightarrow> error + GridWidget list" where
  "convertConfigToDefaultWidgets schema random config availableWidgets =
     (case Array_map (convertConfig_entry schema random availableWidgets) config 0 of
        Inl e \<Rightarrow> Inl e
      | Inr ret \<Rightarrow> Inr (compact ret))"

text \<open>
  \<^verbatim>\<open>props.config ? convertConfigToDefaultWidgets(props.config, availableWidgets) : []\<close>,
  computed by every render.
\<close>

definition defaultLayout ::
  "(LayoutConfiguration \<Rightarrow> LayoutConfiguration option) \<Rightarrow> (nat \<Rightarrow> string)
     \<Rightarrow> LayoutConfiguration list option \<Rightarrow> Widget list \<Rightarrow> error + GridWidget list" where
  "defaultLayout schema random config availableWidgets =
     (case config of
        None \<Rightarrow> Inr []
      | Some cfg \<Rightarrow> convertConfigToDefaultWidgets schema random cfg availableWidgets)"

subsection \<open>The handlers of \<^verbatim>\<open>CustomHomepageGrid\<close>\<close>

text \<open>
  A handler is a closure of one render: \<open>widgets\<close> is the list that render read from
  the store, and the edit mode is the one of the state. Each handler comes in two
  parts: the list it passes to \<^verbatim>\<open>setWidgets\<close>, and the state it leaves.
\<close>

definition handleAdd_widgets :: "bool \<Rightarrow> string \<Rightarrow> GridWidget list \<Rightarrow> Widget \<Rightarrow> GridWidget list" where
  "handleAdd_widgets edit random widgets widget =
     (let widgetId = w_name widget @ ''__'' @ toString (length widgets + 1) @ random in
      widgets @
      [\<lparr>gw_id = Some widgetId,
        gw_layout =
          \<lparr>l_i = widgetId,
           l_x = Finite 0,
           l_y = Math_max (map (\<lambda>w. l_y (gw_layout w) + l_h (gw_layout w)) widgets) + Finite 1,
           l_w = Math_min (nullish (w_maxWidth widget) Number_MAX_VALUE) (nullish (w_width widget) (Finite 12)),
           l_h = Math_min (nullish (w_maxHeight widget) Number_MAX_VALUE) (nullish (w_height widget) (Finite 4)),
           l_minW = w_minWidth widget,
           l_maxW = w_maxWidth widget,
           l_minH = w_minHeight widget,
           l_maxH = w_maxHeight widget,
           l_isDraggable = edit,
           l_isResizable = edit\<rparr>,
        gw_settings = Some []\<rparr>])"

definition handleAdd :: "JSON \<Rightarrow> string \<Rightarrow> GridWidget list \<Rightarrow> Widget \<Rightarrow> State \<Rightarrow> State" where
  "handleAdd J random widgets widget s =
     (setWidgets J (handleAdd_widgets (editMode s) random widgets widget) s)
       \<lparr>addWidgetDialogOpen := False\<rparr>"

definition handleRemove_widgets :: "GridWidget list \<Rightarrow> string \<Rightarrow> GridWidget list" where
  "handleRemove_widgets widgets widgetId = filter (\<lambda>w. gw_id w \<noteq> Some widgetId) widgets"

definition handleRemove :: "JSON \<Rightarrow> GridWidget list \<Rightarrow> string \<Rightarrow> State \<Rightarrow> State" where
  "handleRemove J widgets widgetId s = setWidgets J (handleRemove_widgets widgets widgetId) s"

definition clearLayout :: "JSON \<Rightarrow> State \<Rightarrow> State" where
  "clearLayout J s = setWidgets J [] s"

definition changeEditMode_widgets :: "GridWidget list \<Rightarrow> bool \<Rightarrow> GridWidget list" where
  "changeEditMode_widgets widgets mode =
     map (\<lambda>w. w\<lparr>gw_layout := (gw_layout w)\<lparr>l_isDraggable := mode, l_isResizable := mode\<rparr>\<rparr>) widgets"

definition changeEditMode :: "JSON \<Rightarrow> GridWidget list \<Rightarrow> bool \<Rightarrow> State \<Rightarrow> State" where
  "changeEditMode J widgets mode s =
     setWidgets J (changeEditMode_widgets widgets mode) (s\<lparr>editMode := mode\<rparr>)"

text \<open>
  \<^verbatim>\<open>{...widget, layout: l}\<close>: when \<^verbatim>\<open>find\<close> found no widget the spread adds
  nothing, and the object has a layout only.
\<close>

definition newWidgets :: "GridWidget list \<Rightarrow> Layout list \<Rightarrow> GridWidget list" where
  "newWidgets widgets newLayout =
     map (\<lambda>l. case find (\<lambda>w. gw_id w = Some (l_i l)) widgets of
                 None \<Rightarrow> \<lparr>gw_id = None, gw_layout = l, gw_settings = None\<rparr>
               | Some widget \<Rightarrow> widget\<lparr>gw_layout := l\<rparr>)
       newLayout"

definition handleLayoutChange :: "JSON \<Rightarrow> GridWidget list \<Rightarrow> Layout list \<Rightarrow> State \<Rightarrow> State" where
  "handleLayoutChange J widgets newLayout s =
     (if editMode s then setWidgets J (newWidgets widgets newLayout) s else s)"

definition handleRestoreDefaultConfig :: "JSON \<Rightarrow> GridWidget list \<Rightarrow> State \<Rightarrow> State" where
  "handleRestoreDefaultConfig J dflt s = setWidgets J dflt s"

subsection \<open>Placements that JSON can hold\<close>

text \<open>
  A placement survives \<^verbatim>\<open>JSON.stringify\<close> when it has an id and settings and every
  number of its layout is finite.
\<close>

definition isFinite :: "number \<Rightarrow> bool" where
  "isFinite n = (n \<noteq> NegInfinity)"

definition serialisable_layout :: "Layout \<Rightarrow> bool" where
  "serialisable_layout l =
     (isFinite (l_x l) \<and> isFinite (l_y l) \<and> isFinite (l_w l) \<and> isFinite (l_h l)
      \<and> l_minW l \<noteq> Some NegInfinity \<and> l_maxW l \<noteq> Some NegInfinity
      \<and> l_minH l \<noteq> Some NegInfinity \<and> l_maxH l \<noteq> Some NegInfinity)"

definition serialisable :: "GridWidget \<Rightarrow> bool" where
  "serialisable g = (gw_id g \<noteq> None \<and> gw_settings g \<noteq> None \<and> serialisable_layout (gw_layout g))"

subsection \<open>Entries the catalog resolves\<close>

text \<open>
  The name of a configuration entry, read off the entry and not off the builder: a
  component given as a name is that name, and an element has the name of its
  extension, if it has one.
\<close>

definition entry_name :: "LayoutConfiguration \<Rightarrow> string option" where
  "entry_name c =
     (case c_component c of
        Name n \<Rightarrow> Some n
      | Element None \<Rightarrow> None
      | Element (Some n) \<Rightarrow> Some n)"

text \<open>
  An entry resolves when it has a name, the name is not empty, and a widget of the
  catalog has that name.
\<close>

definition resolves :: "Widget list \<Rightarrow> LayoutConfiguration \<Rightarrow> bool" where
  "resolves availableWidgets c =
     (case entry_name c of
        None \<Rightarrow> False
      | Some n \<Rightarrow> n \<noteq> [] \<and> n \<in> w_name ` set availableWidgets)"

text \<open>
  Modelled from the spec: \<^verbatim>\<open>./types\<close>, which declares
  \<^verbatim>\<open>LayoutConfigurationSchema\<close>, is not among the sources. In the spec an entry of
  the configuration is \<^verbatim>\<open>{component, x: int, y: int, width: int, height: int}\<close>,
  so this instance of the parameter \<open>schema\<close> accepts an entry whose four numbers
  are finite and returns it as it is.
\<close>

definition LayoutConfigurationSchema_parse :: "LayoutConfiguration \<Rightarrow> LayoutConfiguration option" where
  "LayoutConfigurationSchema_parse c =
     (if isFinite (c_x c) \<and> isFinite (c_y c) \<and> isFinite (c_width c) \<and> isFinite (c_height c)
      then Some c else None)"

section \<open>Concrete instances\<close>

text \<open>
  A finite fragment of the platform's JSON: the values of a table are printed as, and
  read back from, the texts beside them; every other text is malformed.
\<close>

definition JSON_table :: "(json \<times> string) list \<Rightarrow> JSON" where
  "JSON_table tbl =
     \<lparr>stringify = (\<lambda>j. case map_of tbl j of None \<Rightarrow> [] | Some t \<Rightarrow> t),
      parse = (\<lambda>t. map_of (map (\<lambda>(j, t). (t, j)) tbl) t)\<rparr>"

text \<open>
  The catalog of the examples has one widget, a clock at most 4 columns wide and 2 rows
  high. \<open>clock_widget y edit\<close> is its placement with the id \<^verbatim>\<open>clock__1k3x\<close>,
  \<open>clock_json\<close> the document that holds this one placement and \<open>clock_text\<close> the
  text of that document.
\<close>

definition clock :: Widget where
  "clock = \<lparr>w_name = ''clock'', w_width = None, w_minWidth = None, w_maxWidth = Some (Finite 4),
             w_height = None, w_minHeight = None, w_maxHeight = Some (Finite 2)\<rparr>"

definition clock_layout :: "number \<Rightarrow> bool \<Rightarrow> Layout" where
  "clock_layout y edit =
     \<lparr>l_i = ''clock__1k3x'', l_x = Finite 0, l_y = y, l_w = Finite 4, l_h = Finite 2,
      l_minW = None, l_maxW = Some (Finite 4), l_minH = None, l_maxH = Some (Finite 2),
      l_isDraggable = edit, l_isResizable = edit\<rparr>"

definition clock_widget :: "number \<Rightarrow> bool \<Rightarrow> GridWidget" where
  "clock_widget y edit =
     \<lparr>gw_id = Some ''clock__1k3x'', gw_layout = clock_layout y edit, gw_settings = Some []\<rparr>"

definition clock_json :: "json \<Rightarrow> json" where
  "clock_json y = JObj
     [(''version'', JNum 1),
      (''pages'', JObj [(''default'', JArr [JObj
         [(''id'', JStr ''clock__1k3x''),
          (''layout'', JObj
             [(''i'', JStr ''clock__1k3x''), (''x'', JNum 0), (''y'', y), (''w'', JNum 4), (''h'', JNum 2),
              (''maxW'', JNum 4), (''maxH'', JNum 2),
              (''isDraggable'', JBool False), (''isResizable'', JBool False)]),
          (''settings'', JObj [])]])])]"

definition clock_text :: "string \<Rightarrow> string" where
  \<open>clock_text y = ''{"version":1,"pages":{"default":[{"id":"clock__1k3x","layout":{"i":"clock__1k3x","x":0,"y":'' @ y
     @ '',"w":4,"h":2,"maxW":4,"maxH":2,"isDraggable":false,"isResizable":false},"settings":{}}]}}''\<close>

definition empty_json :: json where
  "empty_json = JObj [(''version'', JNum 1), (''pages'', JObj [(''default'', JArr [])])]"

definition empty_text :: string where
  \<open>empty_text = ''{"version":1,"pages":{"default":[]}}''\<close>

definition version2_json :: json where
  "version2_json = JObj [(''version'', JNum 2), (''pages'', JObj [(''default'', JArr [])])]"

definition version2_text :: string where
  \<open>version2_text = ''{"version":2,"pages":{"default":[]}}''\<close>

definition JSON0 :: JSON where
  "JSON0 = JSON_table
     [(empty_json, empty_text),
      (clock_json (JNum 0), clock_text ''0''),
      (clock_json JNull, clock_text ''null''),
      (version2_json, version2_text)]"

text \<open>
  A second placement, with settings, and a layout as the grid engine reports it after
  a move.
\<close>

definition weather_widget :: GridWidget where
  "weather_widget =
     \<lparr>gw_id = Some ''weather__2p0q'',
      gw_layout = \<lparr>l_i = ''weather__2p0q'', l_x = Finite 0, l_y = Finite 3, l_w = Finite 6, l_h = Finite 3,
                    l_minW = None, l_maxW = None, l_minH = None, l_maxH = None,
                    l_isDraggable = False, l_isResizable = False\<rparr>,
      gw_settings = Some [(''city'', JStr ''Oslo'')]\<rparr>"

definition moved_layout :: "string \<Rightarrow> Layout" where
  "moved_layout i =
     \<lparr>l_i = i, l_x = Finite 6, l_y = Finite 0, l_w = Finite 6, l_h = Finite 3,
      l_minW = None, l_maxW = None, l_minH = None, l_maxH = None,
      l_isDraggable = True, l_isResizable = True\<rparr>"

text \<open>
  The weather placement after the move, alone and followed by an entry that has a
  layout only, as documents and as texts; and the fragment of JSON that holds the
  two.
\<close>

definition moved_weather :: GridWidget where
  "moved_weather = weather_widget\<lparr>gw_layout := moved_layout ''weather__2p0q''\<rparr>"

definition layout_only :: GridWidget where
  "layout_only = \<lparr>gw_id = None, gw_layout = moved_layout ''calendar__3x1y'', gw_settings = None\<rparr>"

definition moved_json :: "json list \<Rightarrow> json" where
  "moved_json rest = JObj
     [(''version'', JNum 1),
      (''pages'', JObj [(''default'', JArr (JObj
         [(''id'', JStr ''weather__2p0q''),
          (''layout'', JObj
             [(''i'', JStr ''weather__2p0q''), (''x'', JNum 6), (''y'', JNum 0), (''w'', JNum 6), (''h'', JNum 3),
              (''isDraggable'', JBool True), (''isResizable'', JBool True)]),
          (''settings'', JObj [(''city'', JStr ''Oslo'')])] # rest))])]"

definition layout_only_json :: json where
  "layout_only_json = JObj
     [(''layout'', JObj
        [(''i'', JStr ''calendar__3x1y''), (''x'', JNum 6), (''y'', JNum 0), (''w'', JNum 6), (''h'', JNum 3),
         (''isDraggable'', JBool True), (''isResizable'', JBool True)])]"

definition moved_text :: "string \<Rightarrow> string" where
  \<open>moved_text rest = ''{"version":1,"pages":{"default":[{"id":"weather__2p0q","layout":{"i":"weather__2p0q","x":6,"y":0,"w":6,"h":3,"isDraggable":true,"isResizable":true},"settings":{"city":"Oslo"}}''
     @ rest @ '']}}''\<close>

definition layout_only_text :: string where
  \<open>layout_only_text = '',{"layout":{"i":"calendar__3x1y","x":6,"y":0,"w":6,"h":3,"isDraggable":true,"isResizable":true}}''\<close>

text \<open>
  The clock as it is added in edit mode below the moved weather placement.
\<close>

definition added_clock :: GridWidget where
  "added_clock =
     \<lparr>gw_id = Some ''clock__2k3x'',
      gw_layout = \<lparr>l_i = ''clock__2k3x'', l_x = Finite 0, l_y = Finite 4, l_w = Finite 4, l_h = Finite 2,
                    l_minW = None, l_maxW = Some (Finite 4), l_minH = None, l_maxH = Some (Finite 2),
                    l_isDraggable = True, l_isResizable = True\<rparr>,
      gw_settings = Some []\<rparr>"

definition added_json :: json where
  "added_json = JObj
     [(''id'', JStr ''clock__2k3x''),
      (''layout'', JObj
         [(''i'', JStr ''clock__2k3x''), (''x'', JNum 0), (''y'', JNum 4), (''w'', JNum 4), (''h'', JNum 2),
          (''maxW'', JNum 4), (''maxH'', JNum 2),
          (''isDraggable'', JBool True), (''isResizable'', JBool True)]),
      (''settings'', JObj [])]"

definition added_text :: string where
  \<open>added_text = '',{"id":"clock__2k3x","layout":{"i":"clock__2k3x","x":0,"y":4,"w":4,"h":2,"maxW":4,"maxH":2,"isDraggable":true,"isResizable":true},"settings":{}}''\<close>

definition JSON1 :: JSON where
  "JSON1 = JSON_table
     [(moved_json [], moved_text []),
      (moved_json [layout_only_json], moved_text layout_only_text),
      (moved_json [added_json], moved_text added_text)]"

text \<open>
  A configuration of three entries: a name the catalog does not have, the clock
  (asking for 8 by 5 cells), and an element with no extension name.
\<close>

definition clock_conf :: LayoutConfiguration where
  "clock_conf = \<lparr>c_component = Name ''clock'', c_x = Finite 0, c_y = Finite 0,
                  c_width = Finite 8, c_height = Finite 5\<rparr>"

definition weather_conf :: LayoutConfiguration where
  "weather_conf = \<lparr>c_component = Name ''weather'', c_x = Finite 0, c_y = Finite 2,
                    c_width = Finite 6, c_height = Finite 3\<rparr>"

definition unnamed_conf :: LayoutConfiguration where
  "unnamed_conf = \<lparr>c_component = Element None, c_x = Finite 6, c_y = Finite 2,
                    c_width = Finite 6, c_height = Finite 3\<rparr>"

definition config0 :: "LayoutConfiguration list" where
  "config0 = [weather_conf, clock_conf, unnamed_conf]"

text \<open>
  An entry for the clock whose width is not a finite number, and a configuration
  that holds it.
\<close>

definition broken_conf :: LayoutConfiguration where
  "broken_conf = \<lparr>c_component = Name ''clock'', c_x = Finite 0, c_y = Finite 4,
                   c_width = NegInfinity, c_height = Finite 2\<rparr>"

definition config1 :: "LayoutConfiguration list" where
  "config1 = [clock_conf, broken_conf]"

text \<open>
  Two states, out of and in edit mode.
\<close>

definition state0 :: State where
  "state0 = \<lparr>homeSnapshot = Absent, editMode = False, addWidgetDialogOpen = False\<rparr>"

definition state1 :: State where
  "state1 = \<lparr>homeSnapshot = Absent, editMode = True, addWidgetDialogOpen = False\<rparr>"

section \<open>Reading back what was written\<close>

text \<open>
  The schema accepts what \<open>grid_toJSON\<close> makes of a document of version 1 whose
  placements JSON can hold, and gives the document back.
\<close>

lemma z_number_toJSON: "isFinite n \<Longrightarrow> z_number (number_toJSON n) = Some n"
  by (cases n) (simp_all add: isFinite_def z_number_def number_toJSON_def)

lemma z_number_toJSON_if: "z_number (number_toJSON n) = (if n = NegInfinity then None else Some n)"
  by (cases n) (simp_all add: z_number_def number_toJSON_def)

lemma map_of_defined:
  "distinct (map fst props) \<Longrightarrow>
   map_of (List.map_filter (\<lambda>(k, v). map_option (Pair k) v) props) k = Option.bind (map_of props k) (\<lambda>v. v)"
proof (induction props)
  case Nil
  then show ?case by (simp add: List.map_filter_simps)
next
  case (Cons p props)
  obtain k' v where p: "p = (k', v)" by (cases p)
  from Cons.prems have notin: "k' \<notin> fst ` set props" and d: "distinct (map fst props)"
    by (simp_all add: p)
  from notin have none: "map_of props k' = None"
    by (simp add: map_of_eq_None_iff)
  show ?case
    using Cons.IH [OF d] none
    by (cases v) (auto simp add: p List.map_filter_simps)
qed

lemma required_object:
  "distinct (map fst props) \<Longrightarrow>
   required p (List.map_filter (\<lambda>(k, v). map_option (Pair k) v) props) k =
     (case Option.bind (map_of props k) (\<lambda>v. v) of None \<Rightarrow> None | Some j \<Rightarrow> p j)"
  by (simp add: required_def map_of_defined)

lemma optional_object:
  "distinct (map fst props) \<Longrightarrow>
   optional p (List.map_filter (\<lambda>(k, v). map_option (Pair k) v) props) k =
     (case Option.bind (map_of props k) (\<lambda>v. v) of None \<Rightarrow> Some None | Some j \<Rightarrow> map_option Some (p j))"
  by (simp add: optional_def map_of_defined)

lemma LayoutSchema_toJSON:
  assumes "serialisable_layout l"
  shows "LayoutSchema_parse (Layout_toJSON l) = Some l"
  using assms
  by (simp add: LayoutSchema_parse_def Layout_toJSON_def object_def serialisable_layout_def
      required_object optional_object z_number_toJSON_if z_string_def z_boolean_def isFinite_def
      del: List.map_filter_simps split: option.splits)

lemma GridWidgetSchema_toJSON:
  assumes "serialisable g"
  shows "GridWidgetSchema_parse (GridWidget_toJSON g) = Some g"
  using assms
  by (cases g) (auto simp add: GridWidgetSchema_parse_def GridWidget_toJSON_def serialisable_def
      object_def required_object z_string_def z_record_def LayoutSchema_toJSON
      simp del: List.map_filter_simps)

lemma those_GridWidgetSchema_toJSON':
  "list_all serialisable ws \<Longrightarrow> those (map (GridWidgetSchema_parse \<circ> GridWidget_toJSON) ws) = Some ws"
  by (induction ws) (simp_all add: GridWidgetSchema_toJSON)

lemma CustomHomepageGridStateV1Schema_toJSON:
  assumes "version g = 1" and "list_all serialisable (pages_default g)"
  shows "CustomHomepageGridStateV1Schema_parse (grid_toJSON g) = Some g"
  using assms
  by (simp add: CustomHomepageGridStateV1Schema_parse_def grid_toJSON_def required_def z_literal_def
      z_record_def z_array_def those_GridWidgetSchema_toJSON')

text \<open>
  Conversely, every placement the schema accepts can be held by JSON. So the hook
  returns its default or a list that JSON can hold, whatever the text layer does: a
  saved list that JSON cannot hold is never loaded again.
\<close>

lemma required_z_number_finite: "required z_number kvs k = Some x \<Longrightarrow> isFinite x"
  by (auto simp add: required_def z_number_def isFinite_def split: option.splits json.splits)

lemma optional_z_number_finite: "optional z_number kvs k = Some v \<Longrightarrow> v \<noteq> Some NegInfinity"
  by (auto simp add: optional_def z_number_def split: option.splits json.splits)

lemma LayoutSchema_parse_serialisable:
  assumes "LayoutSchema_parse j = Some l"
  shows "serialisable_layout l"
proof -
  from assms obtain kvs x y w h minW maxW minH maxH where
    "required z_number kvs ''x'' = Some x" "required z_number kvs ''y'' = Some y"
    "required z_number kvs ''w'' = Some w" "required z_number kvs ''h'' = Some h"
    "optional z_number kvs ''minW'' = Some minW" "optional z_number kvs ''maxW'' = Some maxW"
    "optional z_number kvs ''minH'' = Some minH" "optional z_number kvs ''maxH'' = Some maxH"
    "l_x l = x" "l_y l = y" "l_w l = w" "l_h l = h"
    "l_minW l = minW" "l_maxW l = maxW" "l_minH l = minH" "l_maxH l = maxH"
    by (cases j) (auto simp add: LayoutSchema_parse_def bind_eq_Some_conv)
  then show ?thesis
    by (auto simp add: serialisable_layout_def dest: required_z_number_finite optional_z_number_finite)
qed

lemma GridWidgetSchema_parse_serialisable:
  assumes "GridWidgetSchema_parse j = Some g"
  shows "serialisable g"
proof -
  from assms obtain kvs layout where "required LayoutSchema_parse kvs ''layout'' = Some layout"
    and "gw_layout g = layout" and "gw_id g \<noteq> None" and "gw_settings g \<noteq> None"
    by (cases j) (auto simp add: GridWidgetSchema_parse_def bind_eq_Some_conv)
  then show ?thesis
    by (auto simp add: serialisable_def required_def split: option.splits
        intro: LayoutSchema_parse_serialisable)
qed

lemma those_map_all:
  "those (map p xs) = Some ys \<Longrightarrow> (\<And>x y. p x = Some y \<Longrightarrow> P y) \<Longrightarrow> list_all P ys"
  by (induction xs arbitrary: ys) (auto split: option.splits)

lemma Schema_parse_serialisable:
  assumes "CustomHomepageGridStateV1Schema_parse j = Some g"
  shows "list_all serialisable (pages_default g)"
proof -
  from assms obtain pages where
    "required (z_array GridWidgetSchema_parse) pages ''default'' = Some (pages_default g)"
    by (cases j) (auto simp add: CustomHomepageGridStateV1Schema_parse_def bind_eq_Some_conv)
  then obtain xs where "those (map GridWidgetSchema_parse xs) = Some (pages_default g)"
    by (auto simp add: required_def z_array_def split: option.splits json.splits)
  then show ?thesis
    by (rule those_map_all) (rule GridWidgetSchema_parse_serialisable)
qed

lemma useHomeStorage_serialisable:
  "useHomeStorage J snapshot d = d \<or> list_all serialisable (useHomeStorage J snapshot d)"
  by (auto simp add: useHomeStorage_def useHomeStorage_try_def Schema_parse_serialisable
      split: option.splits StorageValueSnapshot.splits)

lemma not_serialisable_not_loaded:
  assumes "\<not> list_all serialisable ws" and "d \<noteq> ws"
  shows "useHomeStorage J snapshot d \<noteq> ws"
  using assms useHomeStorage_serialisable [of J snapshot d] by auto

text \<open>
  What a handler passes to \<^verbatim>\<open>setWidgets\<close> is the next snapshot, and the hook
  reads it back when JSON can hold it.
\<close>

lemma homeSnapshot_setWidgets:
  "homeSnapshot (setWidgets J v s) = Present (stringify J (grid_toJSON \<lparr>version = 1, pages_default = v\<rparr>))"
  by (simp add: setWidgets_def)

lemma loaded_after_write:
  assumes "snapshot = Present (stringify J (grid_toJSON \<lparr>version = 1, pages_default = ws\<rparr>))"
    and "parse J (stringify J (grid_toJSON \<lparr>version = 1, pages_default = ws\<rparr>))
        = Some (grid_toJSON \<lparr>version = 1, pages_default = ws\<rparr>)"
    and "list_all serialisable ws"
  shows "useHomeStorage J snapshot d = ws"
proof -
  from assms(3)
  have "CustomHomepageGridStateV1Schema_parse (grid_toJSON \<lparr>version = 1, pages_default = ws\<rparr>)
      = Some \<lparr>version = 1, pages_default = ws\<rparr>"
    by (simp add: CustomHomepageGridStateV1Schema_toJSON)
  with assms(1,2) show ?thesis
    by (simp add: useHomeStorage_def useHomeStorage_try_def)
qed

section \<open>Numbers, lists and the builder\<close>

lemma le_NegInfinity: "x \<le> NegInfinity \<longleftrightarrow> x = NegInfinity"
  by (cases x) simp_all

lemma max_NegInfinity: "max x NegInfinity = x"
  by (cases x) (simp_all add: max_def)

lemma Math_max_Nil: "Math_max [] = NegInfinity"
  by (simp add: Math_max_def)

lemma Math_max_Max: "xs \<noteq> [] \<Longrightarrow> Math_max xs = Max (set xs)"
proof (induction xs)
  case Nil
  then show ?case by simp
next
  case (Cons x xs)
  show ?case
  proof (cases "xs = []")
    case True
    then show ?thesis by (simp add: Math_max_def max_NegInfinity)
  next
    case False
    with Cons.IH have "Math_max xs = Max (set xs)" by simp
    with False show ?thesis
      by (simp add: Math_max_def)
  qed
qed

lemma isFinite_Math_min: "isFinite a \<Longrightarrow> isFinite b \<Longrightarrow> isFinite (Math_min a b)"
  by (simp add: Math_min_def min_def)

lemma isFinite_nullish_MAX_VALUE: "v \<noteq> Some NegInfinity \<Longrightarrow> isFinite (nullish v Number_MAX_VALUE)"
  by (cases v) (simp_all add: nullish_def Number_MAX_VALUE_def isFinite_def)

lemma find_SomeD: "find P xs = Some x \<Longrightarrow> x \<in> set xs \<and> P x"
  by (induction xs) (auto split: if_splits)

lemma Array_map_length: "Array_map f xs i = Inr ys \<Longrightarrow> length ys = length xs"
  by (induction xs arbitrary: i ys) (auto split: sum.splits)

lemma Array_map_nth:
  "Array_map f xs i = Inr ys \<Longrightarrow> k < length xs \<Longrightarrow> f (xs ! k) (i + k) = Inr (ys ! k)"
proof (induction xs arbitrary: i ys k)
  case Nil
  then show ?case by simp
next
  case (Cons x xs)
  from Cons.prems(1) obtain y ys' where y: "f x i = Inr y"
    and ys': "Array_map f xs (Suc i) = Inr ys'" and ys: "ys = y # ys'"
    by (auto split: sum.splits)
  show ?case
  proof (cases k)
    case 0
    with y ys show ?thesis by simp
  next
    case (Suc k')
    with Cons.prems(2) have "k' < length xs" by simp
    from Cons.IH [OF ys' this] Suc ys show ?thesis by simp
  qed
qed

lemma Array_map_Inr:
  assumes "\<And>k. k < length xs \<Longrightarrow> \<exists>v. f (xs ! k) (i + k) = Inr v"
  shows "Array_map f xs i = Inr (map (\<lambda>(x, k). projr (f x k)) (zip xs [i..<i + length xs]))"
  using assms
proof (induction xs arbitrary: i)
  case Nil
  then show ?case by simp
next
  case (Cons x xs)
  from Cons.prems [of 0] obtain v where v: "f x i = Inr v" by auto
  have "\<And>k. k < length xs \<Longrightarrow> \<exists>v. f (xs ! k) (Suc i + k) = Inr v"
    using Cons.prems [of "Suc k" for k] by simp
  from Cons.IH [OF this]
  have "Array_map f xs (Suc i) = Inr (map (\<lambda>(x, k). projr (f x k)) (zip xs [Suc i..<Suc i + length xs]))" .
  with v show ?case
    by (simp add: upt_conv_Cons del: upt_Suc)
qed

lemma set_compact: "set (compact xs) = {x. Some x \<in> set xs}"
  by (induction xs rule: compact.induct) auto

lemma compact_map:
  "compact (map h ps) = map (the \<circ> h) (filter (\<lambda>p. h p \<noteq> None) ps)"
proof (induction ps)
  case Nil
  then show ?case by simp
next
  case (Cons p ps)
  then show ?case by (cases "h p") simp_all
qed

lemma length_filter_zip_fst:
  "length xs = length ys \<Longrightarrow> length (filter (\<lambda>(x, k). P x) (zip xs ys)) = length (filter P xs)"
proof (induction xs ys rule: list_induct2)
  case Nil
  then show ?case by simp
next
  case (Cons x xs y ys)
  then show ?case by simp
qed

lemma convertConfig_entry_Some:
  assumes "convertConfig_entry schema random availableWidgets conf i = Inr (Some g)"
  shows "\<exists>c widget. schema conf = Some c
     \<and> find (\<lambda>w. Some (w_name w) = extensionName (c_component c)) availableWidgets = Some widget
     \<and> gw_id g = Some (w_name widget @ ''__'' @ toString i @ random i)
     \<and> l_w (gw_layout g) = Math_min (nullish (w_maxWidth widget) Number_MAX_VALUE) (c_width c)
     \<and> l_h (gw_layout g) = Math_min (nullish (w_maxHeight widget) Number_MAX_VALUE) (c_height c)
     \<and> l_maxW (gw_layout g) = w_maxWidth widget
     \<and> l_maxH (gw_layout g) = w_maxHeight widget
     \<and> \<not> l_isDraggable (gw_layout g) \<and> \<not> l_isResizable (gw_layout g)"
  using assms
  by (auto simp add: convertConfig_entry_def Let_def split: option.splits if_splits)

lemma entry_name_extensionName: "entry_name c = extensionName (c_component c)"
  by (simp add: entry_name_def extensionName_def split: component.splits option.splits)

lemma convertConfig_entry_None_iff:
  assumes "schema conf = Some c"
  shows "(convertConfig_entry schema random availableWidgets conf i = Inr None) = (\<not> resolves availableWidgets c)"
  using assms
  by (auto simp add: convertConfig_entry_def resolves_def entry_name_extensionName Let_def
      find_None_iff image_iff dest: find_SomeD split: option.splits)

lemma convertConfig_entry_resolves:
  assumes "schema conf = Some c" and "resolves availableWidgets c"
  shows "\<exists>g. convertConfig_entry schema random availableWidgets conf i = Inr (Some g)
     \<and> gw_id g = Some (the (extensionName (c_component c)) @ ''__'' @ toString i @ random i)
     \<and> l_x (gw_layout g) = c_x c \<and> l_y (gw_layout g) = c_y c"
proof -
  from assms(2) obtain n where n: "extensionName (c_component c) = Some n" "n \<noteq> []"
    and "n \<in> w_name ` set availableWidgets"
    by (auto simp add: resolves_def entry_name_extensionName split: option.splits)
  then have "find (\<lambda>w. Some (w_name w) = Some n) availableWidgets \<noteq> None"
    by (auto simp add: find_None_iff)
  then obtain widget where w: "find (\<lambda>w. Some (w_name w) = Some n) availableWidgets = Some widget"
    by auto
  then have "w_name widget = n"
    by (auto simp add: find_Some_iff)
  with assms(1) n w show ?thesis
    by (simp add: convertConfig_entry_def Let_def)
qed

lemma convertConfig_entry_Inr:
  assumes "schema conf = Some c"
  shows "\<exists>v. convertConfig_entry schema random availableWidgets conf i = Inr v"
  using assms
  by (auto simp add: convertConfig_entry_def Let_def split: option.splits)

text \<open>
  A default layout built from finite numbers can be held by JSON.
\<close>

lemma convertConfig_entry_serialisable:
  assumes "convertConfig_entry schema random availableWidgets conf i = Inr (Some g)"
    and "\<And>c. schema conf = Some c \<Longrightarrow>
           isFinite (c_x c) \<and> isFinite (c_y c) \<and> isFinite (c_width c) \<and> isFinite (c_height c)"
    and "\<And>w. w \<in> set availableWidgets \<Longrightarrow>
           w_minWidth w \<noteq> Some NegInfinity \<and> w_maxWidth w \<noteq> Some NegInfinity
           \<and> w_minHeight w \<noteq> Some NegInfinity \<and> w_maxHeight w \<noteq> Some NegInfinity"
  shows "serialisable g"
proof -
  from assms(1) obtain c widget where c: "schema conf = Some c"
    and w: "find (\<lambda>w. Some (w_name w) = extensionName (c_component c)) availableWidgets = Some widget"
    and g: "g = \<lparr>gw_id = Some (w_name widget @ ''__'' @ toString i @ random i),
                gw_layout =
                  \<lparr>l_i = w_name widget @ ''__'' @ toString i @ random i,
                   l_x = c_x c,
                   l_y = c_y c,
                   l_w = Math_min (nullish (w_maxWidth widget) Number_MAX_VALUE) (c_width c),
                   l_h = Math_min (nullish (w_maxHeight widget) Number_MAX_VALUE) (c_height c),
                   l_minW = w_minWidth widget,
                   l_maxW = w_maxWidth widget,
                   l_minH = w_minHeight widget,
                   l_maxH = w_maxHeight widget,
                   l_isDraggable = False,
                   l_isResizable = False\<rparr>,
                gw_settings = Some []\<rparr>"
    by (auto simp add: convertConfig_entry_def Let_def split: option.splits if_splits)
  from find_SomeD [OF w] have "widget \<in> set availableWidgets" by simp
  from assms(3) [OF this] assms(2) [OF c] show ?thesis
    by (simp add: g serialisable_def serialisable_layout_def isFinite_Math_min isFinite_nullish_MAX_VALUE)
qed

lemma convertConfig_serialisable:
  assumes "convertConfigToDefaultWidgets schema random config availableWidgets = Inr out"
    and fin: "\<And>conf c. conf \<in> set config \<Longrightarrow> schema conf = Some c \<Longrightarrow>
           isFinite (c_x c) \<and> isFinite (c_y c) \<and> isFinite (c_width c) \<and> isFinite (c_height c)"
    and cat: "\<And>w. w \<in> set availableWidgets \<Longrightarrow>
           w_minWidth w \<noteq> Some NegInfinity \<and> w_maxWidth w \<noteq> Some NegInfinity
           \<and> w_minHeight w \<noteq> Some NegInfinity \<and> w_maxHeight w \<noteq> Some NegInfinity"
  shows "list_all serialisable out"
proof -
  from assms(1) obtain ret
    where ret: "Array_map (convertConfig_entry schema random availableWidgets) config 0 = Inr ret"
      and out: "out = compact ret"
    by (auto simp add: convertConfigToDefaultWidgets_def split: sum.splits)
  have "serialisable g" if "g \<in> set out" for g
  proof -
    from that out have "Some g \<in> set ret"
      by (simp add: set_compact)
    then obtain k where k: "k < length ret" and g: "ret ! k = Some g"
      by (auto simp add: in_set_conv_nth)
    from ret k have k': "k < length config"
      by (simp add: Array_map_length)
    from Array_map_nth [OF ret k'] g
    have e: "convertConfig_entry schema random availableWidgets (config ! k) k = Inr (Some g)"
      by simp
    from k' have "config ! k \<in> set config" by simp
    from convertConfig_entry_serialisable [OF e fin [OF this] cat]
    show ?thesis by simp
  qed
  then show ?thesis
    by (simp add: list_all_iff)
qed

section \<open>The instances, evaluated\<close>

lemma grid_toJSON_clock:
  "grid_toJSON \<lparr>version = 1, pages_default = [clock_widget (Finite 0) False]\<rparr> = clock_json (JNum 0)"
  by (simp add: grid_toJSON_def GridWidget_toJSON_def Layout_toJSON_def object_def clock_widget_def
      clock_layout_def clock_json_def number_toJSON_def)

lemma grid_toJSON_clock_null:
  "grid_toJSON \<lparr>version = 1, pages_default = [clock_widget NegInfinity False]\<rparr> = clock_json JNull"
  by (simp add: grid_toJSON_def GridWidget_toJSON_def Layout_toJSON_def object_def clock_widget_def
      clock_layout_def clock_json_def number_toJSON_def)

lemma grid_toJSON_empty: "grid_toJSON \<lparr>version = 1, pages_default = []\<rparr> = empty_json"
  by (simp add: grid_toJSON_def empty_json_def)

lemma stringify_clock: "stringify JSON0 (clock_json (JNum 0)) = clock_text ''0''"
  by (simp add: JSON0_def JSON_table_def clock_json_def empty_json_def)

lemma parse_clock: "parse JSON0 (clock_text ''0'') = Some (clock_json (JNum 0))"
  by (simp add: JSON0_def JSON_table_def clock_text_def empty_text_def)

lemma stringify_clock_null: "stringify JSON0 (clock_json JNull) = clock_text ''null''"
  by (simp add: JSON0_def JSON_table_def clock_json_def empty_json_def)

lemma parse_clock_null: "parse JSON0 (clock_text ''null'') = Some (clock_json JNull)"
  by (simp add: JSON0_def JSON_table_def clock_text_def empty_text_def)

lemma stringify_empty: "stringify JSON0 empty_json = empty_text"
  by (simp add: JSON0_def JSON_table_def)

lemma parse_empty: "parse JSON0 empty_text = Some empty_json"
  by (simp add: JSON0_def JSON_table_def)

lemma parse_malformed: \<open>parse JSON0 ''{"version":1,'' = None\<close>
  by (simp add: JSON0_def JSON_table_def clock_text_def empty_text_def version2_text_def)

lemma parse_version2: "parse JSON0 version2_text = Some version2_json"
  by (simp add: JSON0_def JSON_table_def clock_text_def empty_text_def version2_text_def)

lemma serialisable_clock: "serialisable (clock_widget (Finite 0) False)"
  by (simp add: serialisable_def serialisable_layout_def clock_widget_def clock_layout_def isFinite_def)

lemma Schema_parse_clock_null: "CustomHomepageGridStateV1Schema_parse (clock_json JNull) = None"
  by (simp add: CustomHomepageGridStateV1Schema_parse_def GridWidgetSchema_parse_def LayoutSchema_parse_def
      clock_json_def required_def optional_def z_literal_def z_record_def z_array_def z_string_def
      z_number_def)

lemma Schema_parse_version2: "CustomHomepageGridStateV1Schema_parse version2_json = None"
  by (simp add: CustomHomepageGridStateV1Schema_parse_def version2_json_def required_def z_literal_def)

lemma handleAdd_widgets_clock:
  "handleAdd_widgets False ''k3x'' [] clock = [clock_widget NegInfinity False]"
  by (simp add: handleAdd_widgets_def clock_def clock_widget_def clock_layout_def Math_max_def Math_min_def
      nullish_def Number_MAX_VALUE_def toString.simps Let_def)

lemma convertConfig_config0:
  "convertConfigToDefaultWidgets Some (\<lambda>k. ''k3x'') config0 [clock] = Inr [clock_widget (Finite 0) False]"
  by (simp add: convertConfigToDefaultWidgets_def convertConfig_entry_def extensionName_def config0_def
      clock_conf_def weather_conf_def unnamed_conf_def clock_def clock_widget_def clock_layout_def
      Let_def Math_min_def nullish_def Number_MAX_VALUE_def toString.simps)

lemma resolves_config0:
  "\<not> resolves [clock] weather_conf \<and> resolves [clock] clock_conf \<and> \<not> resolves [clock] unnamed_conf"
  by (simp add: resolves_def entry_name_def clock_conf_def weather_conf_def unnamed_conf_def clock_def)

lemma LayoutConfigurationSchema_config0:
  "map LayoutConfigurationSchema_parse config0 = map Some config0"
  by (simp add: LayoutConfigurationSchema_parse_def config0_def clock_conf_def weather_conf_def
      unnamed_conf_def isFinite_def)

lemma LayoutConfigurationSchema_broken: "LayoutConfigurationSchema_parse broken_conf = None"
  by (simp add: LayoutConfigurationSchema_parse_def broken_conf_def isFinite_def)

lemma resolves_broken: "resolves [clock] broken_conf"
  by (simp add: resolves_def entry_name_def broken_conf_def clock_def)

lemma convertConfig_config1:
  "convertConfigToDefaultWidgets LayoutConfigurationSchema_parse (\<lambda>k. ''k3x'') config1 [clock]
     = Inl ZodError"
  by (simp add: config1_def convertConfigToDefaultWidgets_def convertConfig_entry_def
      LayoutConfigurationSchema_parse_def clock_conf_def broken_conf_def isFinite_def
      extensionName_def clock_def Let_def)

lemma grid_toJSON_moved:
  "grid_toJSON \<lparr>version = 1, pages_default = [moved_weather]\<rparr> = moved_json []"
  by (simp add: grid_toJSON_def GridWidget_toJSON_def Layout_toJSON_def object_def moved_weather_def
      weather_widget_def moved_layout_def moved_json_def number_toJSON_def)

lemma grid_toJSON_layout_only:
  "grid_toJSON \<lparr>version = 1, pages_default = [moved_weather, layout_only]\<rparr> = moved_json [layout_only_json]"
  by (simp add: grid_toJSON_def GridWidget_toJSON_def Layout_toJSON_def object_def moved_weather_def
      weather_widget_def moved_layout_def moved_json_def layout_only_def layout_only_json_def
      number_toJSON_def)

lemma grid_toJSON_added:
  "grid_toJSON \<lparr>version = 1, pages_default = [moved_weather, added_clock]\<rparr> = moved_json [added_json]"
  by (simp add: grid_toJSON_def GridWidget_toJSON_def Layout_toJSON_def object_def moved_weather_def
      weather_widget_def moved_layout_def moved_json_def added_clock_def added_json_def
      number_toJSON_def)

lemma stringify_moved: "stringify JSON1 (moved_json []) = moved_text []"
  by (simp add: JSON1_def JSON_table_def)

lemma parse_moved: "parse JSON1 (moved_text []) = Some (moved_json [])"
  by (simp add: JSON1_def JSON_table_def)

lemma stringify_layout_only: "stringify JSON1 (moved_json [layout_only_json]) = moved_text layout_only_text"
  by (simp add: JSON1_def JSON_table_def moved_json_def)

lemma parse_layout_only: "parse JSON1 (moved_text layout_only_text) = Some (moved_json [layout_only_json])"
  by (simp add: JSON1_def JSON_table_def moved_text_def layout_only_text_def)

lemma stringify_added: "stringify JSON1 (moved_json [added_json]) = moved_text added_text"
  by (simp add: JSON1_def JSON_table_def moved_json_def layout_only_json_def added_json_def)

lemma parse_added: "parse JSON1 (moved_text added_text) = Some (moved_json [added_json])"
  by (simp add: JSON1_def JSON_table_def moved_text_def layout_only_text_def added_text_def)

lemma Schema_parse_layout_only:
  "CustomHomepageGridStateV1Schema_parse (moved_json [layout_only_json]) = None"
  by (simp add: CustomHomepageGridStateV1Schema_parse_def GridWidgetSchema_parse_def LayoutSchema_parse_def
      moved_json_def layout_only_json_def required_def optional_def z_literal_def z_record_def
      z_array_def z_string_def z_number_def z_boolean_def)

lemma serialisable_moved: "serialisable moved_weather"
  by (simp add: serialisable_def serialisable_layout_def moved_weather_def weather_widget_def
      moved_layout_def isFinite_def)

lemma serialisable_added: "serialisable added_clock"
  by (simp add: serialisable_def serialisable_layout_def added_clock_def isFinite_def)

lemma handleAdd_widgets_added:
  "handleAdd_widgets True ''k3x'' [moved_weather] clock = [moved_weather, added_clock]"
  by (simp add: handleAdd_widgets_def clock_def added_clock_def moved_weather_def weather_widget_def
      moved_layout_def Math_max_def Math_min_def nullish_def Number_MAX_VALUE_def toString.simps
      Let_def max_def)

lemma newWidgets_moved:
  "newWidgets [clock_widget (Finite 0) True, weather_widget] [moved_layout ''weather__2p0q'']
     = [moved_weather]"
  by (simp add: newWidgets_def clock_widget_def weather_widget_def moved_weather_def moved_layout_def)

lemma newWidgets_layout_only:
  "newWidgets [clock_widget (Finite 0) True, weather_widget]
       [moved_layout ''weather__2p0q'', moved_layout ''calendar__3x1y'']
     = [moved_weather, layout_only]"
  by (simp add: newWidgets_def clock_widget_def weather_widget_def moved_weather_def layout_only_def
      moved_layout_def)

lemma changeEditMode_widgets_clock:
  "changeEditMode_widgets [clock_widget (Finite 0) True] False = [clock_widget (Finite 0) False]"
  by (simp add: changeEditMode_widgets_def clock_widget_def clock_layout_def)

lemma reads_back_clock:
  "parse JSON0 (stringify JSON0 (grid_toJSON \<lparr>version = 1, pages_default = [clock_widget (Finite 0) False]\<rparr>))
     = Some (grid_toJSON \<lparr>version = 1, pages_default = [clock_widget (Finite 0) False]\<rparr>)"
  by (simp only: grid_toJSON_clock stringify_clock parse_clock)

lemma reads_back_moved:
  "parse JSON1 (stringify JSON1 (grid_toJSON \<lparr>version = 1, pages_default = [moved_weather]\<rparr>))
     = Some (grid_toJSON \<lparr>version = 1, pages_default = [moved_weather]\<rparr>)"
  by (simp only: grid_toJSON_moved stringify_moved parse_moved)

lemma reads_back_added:
  "parse JSON1 (stringify JSON1 (grid_toJSON \<lparr>version = 1, pages_default = [moved_weather, added_clock]\<rparr>))
     = Some (grid_toJSON \<lparr>version = 1, pages_default = [moved_weather, added_clock]\<rparr>)"
  by (simp only: grid_toJSON_added stringify_added parse_added)

section \<open>The storage hook\<close>

text \<open>
  C1, as amended. Saving a widget sequence and loading it again gives the sequence
  back when every widget of it can be held by JSON (it has an id and settings, and
  the numbers of its layout are finite) and \<^verbatim>\<open>JSON.parse\<close> reads the written text
  back; and for every stored text that parses to a document the schema accepts, the
  version is 1 and the load returns the default page of that document, whatever the
  default is.
\<close>

theorem save_then_load:
  "(parse J (stringify J (grid_toJSON \<lparr>version = 1, pages_default = ws\<rparr>))
        = Some (grid_toJSON \<lparr>version = 1, pages_default = ws\<rparr>)
      \<and> list_all serialisable ws
      \<longrightarrow> useHomeStorage J (homeSnapshot (setWidgets J ws s)) d = ws)
   \<and> (parse J t = Some j \<and> CustomHomepageGridStateV1Schema_parse j = Some g
      \<longrightarrow> version g = 1 \<and> useHomeStorage J (Present t) d = pages_default g)"
proof (intro conjI impI)
  assume a: "parse J (stringify J (grid_toJSON \<lparr>version = 1, pages_default = ws\<rparr>))
        = Some (grid_toJSON \<lparr>version = 1, pages_default = ws\<rparr>) \<and> list_all serialisable ws"
  then have "CustomHomepageGridStateV1Schema_parse (grid_toJSON \<lparr>version = 1, pages_default = ws\<rparr>)
      = Some \<lparr>version = 1, pages_default = ws\<rparr>"
    by (simp add: CustomHomepageGridStateV1Schema_toJSON)
  with a show "useHomeStorage J (homeSnapshot (setWidgets J ws s)) d = ws"
    by (simp add: useHomeStorage_def useHomeStorage_try_def setWidgets_def)
next
  assume b: "parse J t = Some j \<and> CustomHomepageGridStateV1Schema_parse j = Some g"
  then show "version g = 1"
    by (auto simp add: CustomHomepageGridStateV1Schema_parse_def required_def z_literal_def
        split: json.splits option.splits if_splits Option.bind_splits)
  from b show "useHomeStorage J (Present t) d = pages_default g"
    by (simp add: useHomeStorage_def useHomeStorage_try_def)
qed

theorem save_then_load_witness:
  "parse JSON0 (stringify JSON0 (grid_toJSON \<lparr>version = 1, pages_default = [clock_widget (Finite 0) False]\<rparr>))
     = Some (grid_toJSON \<lparr>version = 1, pages_default = [clock_widget (Finite 0) False]\<rparr>)
   \<and> list_all serialisable [clock_widget (Finite 0) False]
   \<and> useHomeStorage JSON0 (homeSnapshot (setWidgets JSON0 [clock_widget (Finite 0) False] state0)) []
       = [clock_widget (Finite 0) False]
   \<and> parse JSON0 (clock_text ''0'') = Some (clock_json (JNum 0))
   \<and> useHomeStorage JSON0 (Present (clock_text ''0'')) [] = [clock_widget (Finite 0) False]"
proof -
  let ?ws = "[clock_widget (Finite 0) False]"
  let ?g = "\<lparr>version = 1, pages_default = ?ws\<rparr>"
  have rt: "parse JSON0 (stringify JSON0 (grid_toJSON ?g)) = Some (grid_toJSON ?g)"
    by (simp only: grid_toJSON_clock stringify_clock parse_clock)
  have ser: "list_all serialisable ?ws"
    by (simp add: serialisable_clock)
  have valid: "CustomHomepageGridStateV1Schema_parse (clock_json (JNum 0)) = Some ?g"
    using CustomHomepageGridStateV1Schema_toJSON [of ?g] ser
    by (simp add: grid_toJSON_clock)
  from save_then_load [of JSON0 ?ws state0 "[]" "clock_text ''0''" "clock_json (JNum 0)" ?g]
  show ?thesis
    using rt ser valid parse_clock by simp
qed

text \<open>
  C1 as stated fails. Adding the clock to an empty grid gives a widget whose \<open>y\<close> is
  \<^verbatim>\<open>-Infinity\<close>; it is saved as \<^verbatim>\<open>null\<close>, and loading does not give it back.
\<close>

theorem save_then_load_counterexample:
  "handleAdd_widgets False ''k3x'' [] clock = [clock_widget NegInfinity False]
   \<and> useHomeStorage JSON0 (homeSnapshot (setWidgets JSON0 [clock_widget NegInfinity False] state0)) []
       \<noteq> [clock_widget NegInfinity False]"
  by (simp add: handleAdd_widgets_clock useHomeStorage_def useHomeStorage_try_def setWidgets_def
      grid_toJSON_clock_null stringify_clock_null parse_clock_null Schema_parse_clock_null)

text \<open>
  C2. When the stored value is absent, has no value, is not JSON, or is JSON that the
  schema of the document rejects, the hook returns the default widgets it was given:
  the error of the \<^verbatim>\<open>try\<close> block is caught, never thrown on.
\<close>

theorem load_falls_back:
  assumes "snapshot = Absent \<or> snapshot = Unknown
     \<or> (\<exists>t. snapshot = Present t
           \<and> (parse J t = None
              \<or> (\<exists>j. parse J t = Some j \<and> CustomHomepageGridStateV1Schema_parse j = None)))"
  shows "useHomeStorage J snapshot defaultWidgets = defaultWidgets
     \<and> (snapshot \<noteq> Absent \<longrightarrow> (\<exists>e. useHomeStorage_try J snapshot = Inl e))"
  using assms
  by (auto simp add: useHomeStorage_def useHomeStorage_try_def)

theorem load_falls_back_witness:
  \<open>useHomeStorage JSON0 Absent [clock_widget (Finite 0) False] = [clock_widget (Finite 0) False]
   \<and> parse JSON0 ''{"version":1,'' = None
   \<and> useHomeStorage JSON0 (Present ''{"version":1,'') [clock_widget (Finite 0) False]
       = [clock_widget (Finite 0) False]
   \<and> useHomeStorage_try JSON0 (Present ''{"version":1,'') = Inl SyntaxError
   \<and> parse JSON0 version2_text = Some version2_json
   \<and> CustomHomepageGridStateV1Schema_parse version2_json = None
   \<and> useHomeStorage JSON0 (Present version2_text) [clock_widget (Finite 0) False]
       = [clock_widget (Finite 0) False]
   \<and> useHomeStorage_try JSON0 (Present version2_text) = Inl ZodError\<close>
proof -
  let ?d = "[clock_widget (Finite 0) False]"
  have 1: "useHomeStorage JSON0 Absent ?d = ?d"
    using load_falls_back [of Absent JSON0 ?d] by simp
  have 2: \<open>useHomeStorage JSON0 (Present ''{"version":1,'') ?d = ?d\<close>
    using load_falls_back [of \<open>Present ''{"version":1,''\<close> JSON0 ?d] parse_malformed by simp
  have 3: "useHomeStorage JSON0 (Present version2_text) ?d = ?d"
    using load_falls_back [of "Present version2_text" JSON0 ?d] parse_version2 Schema_parse_version2
    by simp
  show ?thesis
    using 1 2 3 parse_malformed parse_version2 Schema_parse_version2
    by (simp add: useHomeStorage_try_def)
qed

section \<open>Adding a widget\<close>

text \<open>
  C3, at the input where the code departs from it. Added to an empty grid, the new
  widget is placed at \<open>y\<close> = \<^verbatim>\<open>-Infinity\<close> (\<^verbatim>\<open>Math.max()\<close> of no arguments, plus
  1), not at \<open>y = 0\<close>.
\<close>

theorem add_to_empty_grid:
  "l_y (gw_layout (last (handleAdd_widgets edit random [] widget))) = NegInfinity
   \<and> l_y (gw_layout (last (handleAdd_widgets edit random [] widget))) \<noteq> Finite 0"
  by (simp add: handleAdd_widgets_def Let_def Math_max_def)

text \<open>
  On a grid that is not empty the new widget is appended at \<open>x = 0\<close>, one row below
  the lowest edge \<open>y + h\<close> of the widgets there.
\<close>

lemma handleAdd_appends:
  "\<exists>g. handleAdd_widgets edit random widgets widget = widgets @ [g]
     \<and> l_x (gw_layout g) = Finite 0
     \<and> l_y (gw_layout g) = Math_max (map (\<lambda>w. l_y (gw_layout w) + l_h (gw_layout w)) widgets) + Finite 1"
  by (simp add: handleAdd_widgets_def Let_def)

lemma handleAdd_below_tallest:
  assumes "widgets \<noteq> []"
  shows "l_y (gw_layout (last (handleAdd_widgets edit random widgets widget)))
       = Max ((\<lambda>w. l_y (gw_layout w) + l_h (gw_layout w)) ` set widgets) + Finite 1
     \<and> l_x (gw_layout (last (handleAdd_widgets edit random widgets widget))) = Finite 0"
  using assms by (simp add: handleAdd_widgets_def Let_def Math_max_Max)

section \<open>The default layout\<close>

text \<open>
  C4. Every widget the builder returns comes from an entry of the configuration that
  passed the schema and whose name a catalog widget has; its \<open>maxW\<close> and \<open>maxH\<close>
  are the bounds of that catalog widget; when the catalog widget has a \<open>maxWidth\<close>,
  the width is the smaller of \<open>maxWidth\<close> and the width asked for, so it never
  exceeds \<open>maxWidth\<close>; and the same holds of the height and \<open>maxHeight\<close>.
\<close>

theorem build_clamps:
  assumes "convertConfigToDefaultWidgets schema random config availableWidgets = Inr out"
    and "g \<in> set out"
  shows "\<exists>k c widget. k < length config \<and> schema (config ! k) = Some c
     \<and> find (\<lambda>w. Some (w_name w) = extensionName (c_component c)) availableWidgets = Some widget
     \<and> gw_id g = Some (w_name widget @ ''__'' @ toString k @ random k)
     \<and> l_maxW (gw_layout g) = w_maxWidth widget
     \<and> l_maxH (gw_layout g) = w_maxHeight widget
     \<and> (\<forall>m. w_maxWidth widget = Some m \<longrightarrow>
            l_w (gw_layout g) = Math_min m (c_width c) \<and> l_w (gw_layout g) \<le> m)
     \<and> (\<forall>m. w_maxHeight widget = Some m \<longrightarrow>
            l_h (gw_layout g) = Math_min m (c_height c) \<and> l_h (gw_layout g) \<le> m)"
proof -
  from assms(1) obtain ret
    where ret: "Array_map (convertConfig_entry schema random availableWidgets) config 0 = Inr ret"
      and out: "out = compact ret"
    by (auto simp add: convertConfigToDefaultWidgets_def split: sum.splits)
  from assms(2) out have "Some g \<in> set ret"
    by (simp add: set_compact)
  then obtain k where k: "k < length ret" and g: "ret ! k = Some g"
    by (auto simp add: in_set_conv_nth)
  from ret have len: "length ret = length config"
    by (rule Array_map_length)
  with k have k': "k < length config" by simp
  from Array_map_nth [OF ret k'] g
  have "convertConfig_entry schema random availableWidgets (config ! k) k = Inr (Some g)"
    by simp
  from convertConfig_entry_Some [OF this] obtain c widget where
    c: "schema (config ! k) = Some c"
    and w: "find (\<lambda>w. Some (w_name w) = extensionName (c_component c)) availableWidgets = Some widget"
    and i: "gw_id g = Some (w_name widget @ ''__'' @ toString k @ random k)"
    and lw: "l_w (gw_layout g) = Math_min (nullish (w_maxWidth widget) Number_MAX_VALUE) (c_width c)"
    and lh: "l_h (gw_layout g) = Math_min (nullish (w_maxHeight widget) Number_MAX_VALUE) (c_height c)"
    and mw: "l_maxW (gw_layout g) = w_maxWidth widget"
    and mh: "l_maxH (gw_layout g) = w_maxHeight widget"
    by blast
  have "\<forall>m. w_maxWidth widget = Some m \<longrightarrow>
            l_w (gw_layout g) = Math_min m (c_width c) \<and> l_w (gw_layout g) \<le> m"
    using lw by (simp add: nullish_def Math_min_def)
  moreover have "\<forall>m. w_maxHeight widget = Some m \<longrightarrow>
            l_h (gw_layout g) = Math_min m (c_height c) \<and> l_h (gw_layout g) \<le> m"
    using lh by (simp add: nullish_def Math_min_def)
  ultimately show ?thesis
    using k' c w i mw mh by blast
qed

theorem build_clamps_witness:
  "convertConfigToDefaultWidgets Some (\<lambda>k. ''k3x'') config0 [clock] = Inr [clock_widget (Finite 0) False]
   \<and> w_maxWidth clock = Some (Finite 4) \<and> w_maxHeight clock = Some (Finite 2)
   \<and> c_width clock_conf = Finite 8 \<and> c_height clock_conf = Finite 5
   \<and> l_w (gw_layout (clock_widget (Finite 0) False)) = Finite 4
   \<and> l_h (gw_layout (clock_widget (Finite 0) False)) = Finite 2"
proof -
  let ?g = "clock_widget (Finite 0) False"
  have g: "?g \<in> set [?g]" by simp
  from build_clamps [OF convertConfig_config0 g]
  obtain k c widget where k: "k < length config0" and c: "Some (config0 ! k) = Some c"
    and w: "find (\<lambda>w. Some (w_name w) = extensionName (c_component c)) [clock] = Some widget"
    and mw: "\<forall>m. w_maxWidth widget = Some m \<longrightarrow>
            l_w (gw_layout ?g) = Math_min m (c_width c) \<and> l_w (gw_layout ?g) \<le> m"
    and mh: "\<forall>m. w_maxHeight widget = Some m \<longrightarrow>
            l_h (gw_layout ?g) = Math_min m (c_height c) \<and> l_h (gw_layout ?g) \<le> m"
    by blast
  from w have widget: "widget = clock" by (simp split: if_splits)
  from widget have "w_maxWidth widget = Some (Finite 4)" and "w_maxHeight widget = Some (Finite 2)"
    by (simp_all add: clock_def)
  with mw mh have "l_w (gw_layout ?g) \<le> Finite 4" and "l_h (gw_layout ?g) \<le> Finite 2"
    by blast+
  then show ?thesis
    using convertConfig_config0
    by (simp add: clock_def clock_conf_def clock_widget_def clock_layout_def)
qed

text \<open>
  The builder on a configuration whose entries the schema returns as they are, and
  then on any configuration that passes the schema.
\<close>

lemma convertConfig_drops_unresolved:
  assumes valid: "\<forall>c \<in> set config. schema c = Some c"
  shows "\<exists>out. convertConfigToDefaultWidgets schema random config availableWidgets = Inr out
     \<and> length out = length config - length (filter (\<lambda>c. \<not> resolves availableWidgets c) config)
     \<and> map gw_id out =
         map (\<lambda>(c, k). Some (the (extensionName (c_component c)) @ ''__'' @ toString k @ random k))
           (filter (\<lambda>(c, k). resolves availableWidgets c) (zip config [0..<length config]))
     \<and> map (\<lambda>g. (l_x (gw_layout g), l_y (gw_layout g))) out =
         map (\<lambda>c. (c_x c, c_y c)) (filter (resolves availableWidgets) config)"
proof -
  let ?f = "convertConfig_entry schema random availableWidgets"
  let ?h = "\<lambda>(x, k). projr (?f x k)"
  let ?ps = "zip config [0..<length config]"
  let ?R = "\<lambda>(c, k). resolves availableWidgets c"
  have "\<And>k. k < length config \<Longrightarrow> \<exists>v. ?f (config ! k) (0 + k) = Inr v"
    using valid convertConfig_entry_Inr [of schema _ _ random availableWidgets] by auto
  from Array_map_Inr [of config ?f 0, OF this]
  have ret: "Array_map ?f config 0 = Inr (map ?h ?ps)"
    by simp
  have mem: "schema c = Some c" if "(c, k) \<in> set ?ps" for c k
    using that valid by (auto dest: set_zip_leftD)
  have keep: "(?h p \<noteq> None) = ?R p" if "p \<in> set ?ps" for p
  proof -
    obtain c k where p: "p = (c, k)" by (cases p)
    from that p have sc: "schema c = Some c" by (auto intro: mem)
    from convertConfig_entry_Inr [of schema c c random availableWidgets k, OF sc]
    obtain v where v: "?f c k = Inr v" by auto
    with convertConfig_entry_None_iff [of schema c c random availableWidgets k, OF sc]
    show ?thesis by (auto simp add: p)
  qed
  have filt: "filter (\<lambda>p. ?h p \<noteq> None) ?ps = filter ?R ?ps"
  proof (rule filter_cong [OF refl])
    fix p
    assume "p \<in> set ?ps"
    then show "(?h p \<noteq> None) = ?R p" by (rule keep)
  qed
  define out where "out = compact (map ?h ?ps)"
  have out': "out = map (the \<circ> ?h) (filter ?R ?ps)"
    by (simp only: out_def compact_map filt)
  have built: "convertConfigToDefaultWidgets schema random config availableWidgets = Inr out"
    by (simp add: convertConfigToDefaultWidgets_def ret out_def)
  have props: "gw_id ((the \<circ> ?h) p) =
        (\<lambda>(c, k). Some (the (extensionName (c_component c)) @ ''__'' @ toString k @ random k)) p
      \<and> (\<lambda>g. (l_x (gw_layout g), l_y (gw_layout g))) ((the \<circ> ?h) p) = (\<lambda>c. (c_x c, c_y c)) (fst p)"
    if "p \<in> set (filter ?R ?ps)" for p
  proof -
    obtain c k where p: "p = (c, k)" by (cases p)
    from that p have sc: "schema c = Some c" and r: "resolves availableWidgets c"
      by (auto intro: mem)
    from convertConfig_entry_resolves [of schema c c availableWidgets random k, OF sc r]
    show ?thesis by (auto simp add: p)
  qed
  have ids: "map gw_id out =
         map (\<lambda>(c, k). Some (the (extensionName (c_component c)) @ ''__'' @ toString k @ random k))
           (filter ?R ?ps)"
    unfolding out' map_map
  proof (rule map_cong [OF refl])
    fix p
    assume "p \<in> set (filter ?R ?ps)"
    from props [OF this]
    show "(gw_id \<circ> (the \<circ> ?h)) p =
        (\<lambda>(c, k). Some (the (extensionName (c_component c)) @ ''__'' @ toString k @ random k)) p"
      by (simp only: comp_apply)
  qed
  have "map (\<lambda>g. (l_x (gw_layout g), l_y (gw_layout g))) out
      = map ((\<lambda>c. (c_x c, c_y c)) \<circ> fst) (filter ?R ?ps)"
    unfolding out' map_map
  proof (rule map_cong [OF refl])
    fix p
    assume "p \<in> set (filter ?R ?ps)"
    from props [OF this]
    show "((\<lambda>g. (l_x (gw_layout g), l_y (gw_layout g))) \<circ> (the \<circ> ?h)) p
        = ((\<lambda>c. (c_x c, c_y c)) \<circ> fst) p"
      by (simp only: comp_apply)
  qed
  also have "\<dots> = map (\<lambda>c. (c_x c, c_y c)) (map fst (filter (resolves availableWidgets \<circ> fst) ?ps))"
    by (simp add: comp_def split_def)
  also have "map fst (filter (resolves availableWidgets \<circ> fst) ?ps) = filter (resolves availableWidgets) config"
    by (simp add: filter_map [symmetric])
  finally have pos: "map (\<lambda>g. (l_x (gw_layout g), l_y (gw_layout g))) out =
         map (\<lambda>c. (c_x c, c_y c)) (filter (resolves availableWidgets) config)" .
  have "length out = length (filter (resolves availableWidgets) config)"
    by (simp add: out' length_filter_zip_fst)
  moreover have "length (filter (resolves availableWidgets) config)
      + length (filter (\<lambda>c. \<not> resolves availableWidgets c) config) = length config"
    by (rule sum_length_filter_compl)
  ultimately have len: "length out = length config - length (filter (\<lambda>c. \<not> resolves availableWidgets c) config)"
    by simp
  from built len ids pos show ?thesis by blast
qed

lemma convertConfig_entry_parsed:
  "schema conf = Some c \<Longrightarrow>
   convertConfig_entry schema random availableWidgets conf i = convertConfig_entry Some random availableWidgets c i"
  by (simp add: convertConfig_entry_def)

lemma Array_map_parsed:
  "map schema config = map Some cs \<Longrightarrow>
   Array_map (convertConfig_entry schema random availableWidgets) config i
     = Array_map (convertConfig_entry Some random availableWidgets) cs i"
proof (induction config arbitrary: cs i)
  case Nil
  then show ?case by simp
next
  case (Cons conf config)
  then obtain c cs' where cs: "cs = c # cs'" and c: "schema conf = Some c"
    and rest: "map schema config = map Some cs'"
    by (cases cs) auto
  from Cons.IH [OF rest, of "Suc i"] convertConfig_entry_parsed [of schema conf c random availableWidgets i, OF c]
  show ?case
    by (simp only: cs Array_map.simps)
qed

lemma convertConfig_parsed:
  assumes "map schema config = map Some cs"
  shows "convertConfigToDefaultWidgets schema random config availableWidgets
     = convertConfigToDefaultWidgets Some random cs availableWidgets"
  by (simp only: convertConfigToDefaultWidgets_def Array_map_parsed [OF assms])

text \<open>
  An entry the schema rejects ends the builder with the error of the schema.
\<close>

lemma convertConfig_entry_Inl:
  "convertConfig_entry schema random availableWidgets conf i = Inl e \<Longrightarrow> e = ZodError"
  by (cases e) (auto simp add: convertConfig_entry_def Let_def split: option.splits if_splits)

lemma convertConfig_entry_rejected:
  "schema conf = None \<Longrightarrow> convertConfig_entry schema random availableWidgets conf i = Inl ZodError"
  by (simp add: convertConfig_entry_def)

lemma Array_map_rejected:
  assumes "conf \<in> set config" and "schema conf = None"
  shows "Array_map (convertConfig_entry schema random availableWidgets) config i = Inl ZodError"
  using assms(1)
proof (induction config arbitrary: i)
  case Nil
  then show ?case by simp
next
  case (Cons x xs)
  show ?case
  proof (cases "convertConfig_entry schema random availableWidgets x i")
    case (Inl e)
    with convertConfig_entry_Inl [OF Inl] show ?thesis by simp
  next
    case (Inr y)
    with convertConfig_entry_rejected [of schema conf random availableWidgets i, OF assms(2)]
    have "x \<noteq> conf" by auto
    with Cons.prems have "conf \<in> set xs" by simp
    from Cons.IH [OF this, of "Suc i"] Inr show ?thesis by simp
  qed
qed

text \<open>
  C5, as amended. When every entry of a configuration passes the schema, the builder
  returns without error; of the \<open>N\<close> entries it drops the \<open>M\<close> that do not resolve
  (no name, an empty name, or a name no catalog widget has) and returns the other
  \<open>N - M\<close> in the order of the configuration: the ids carry the names and the
  indices of the resolved entries in increasing order, and the positions are theirs.
  Here \<open>cs\<close> are the entries as the schema returns them. When the schema rejects an
  entry, the builder throws the validation error.
\<close>

theorem build_drops_unresolved:
  "(map schema config = map Some cs \<longrightarrow>
     (\<exists>out. convertConfigToDefaultWidgets schema random config availableWidgets = Inr out
       \<and> length out = length config - length (filter (\<lambda>c. \<not> resolves availableWidgets c) cs)
       \<and> map gw_id out =
           map (\<lambda>(c, k). Some (the (entry_name c) @ ''__'' @ toString k @ random k))
             (filter (\<lambda>(c, k). resolves availableWidgets c) (zip cs [0..<length cs]))
       \<and> map (\<lambda>g. (l_x (gw_layout g), l_y (gw_layout g))) out =
           map (\<lambda>c. (c_x c, c_y c)) (filter (resolves availableWidgets) cs)))
   \<and> ((\<exists>conf \<in> set config. schema conf = None) \<longrightarrow>
        convertConfigToDefaultWidgets schema random config availableWidgets = Inl ZodError)"
proof (intro conjI impI)
  assume valid: "map schema config = map Some cs"
  then have "length (map schema config) = length (map Some cs)" by simp
  then have len: "length config = length cs" by simp
  have "\<forall>c \<in> set cs. Some c = Some c" by simp
  from convertConfig_drops_unresolved [of cs Some random availableWidgets, OF this]
  show "\<exists>out. convertConfigToDefaultWidgets schema random config availableWidgets = Inr out
       \<and> length out = length config - length (filter (\<lambda>c. \<not> resolves availableWidgets c) cs)
       \<and> map gw_id out =
           map (\<lambda>(c, k). Some (the (entry_name c) @ ''__'' @ toString k @ random k))
             (filter (\<lambda>(c, k). resolves availableWidgets c) (zip cs [0..<length cs]))
       \<and> map (\<lambda>g. (l_x (gw_layout g), l_y (gw_layout g))) out =
           map (\<lambda>c. (c_x c, c_y c)) (filter (resolves availableWidgets) cs)"
    unfolding convertConfig_parsed [OF valid] len entry_name_extensionName .
next
  assume "\<exists>conf \<in> set config. schema conf = None"
  then obtain conf where "conf \<in> set config" and "schema conf = None" by blast
  from Array_map_rejected [of conf config schema random availableWidgets 0, OF this]
  show "convertConfigToDefaultWidgets schema random config availableWidgets = Inl ZodError"
    by (simp add: convertConfigToDefaultWidgets_def)
qed

theorem build_drops_unresolved_witness:
  "length config0 = 3
   \<and> length (filter (\<lambda>c. \<not> resolves [clock] c) config0) = 2
   \<and> (\<exists>out. convertConfigToDefaultWidgets LayoutConfigurationSchema_parse (\<lambda>k. ''k3x'') config0 [clock] = Inr out
         \<and> length out = 1 \<and> map gw_id out = [Some ''clock__1k3x''])
   \<and> LayoutConfigurationSchema_parse broken_conf = None
   \<and> convertConfigToDefaultWidgets LayoutConfigurationSchema_parse (\<lambda>k. ''k3x'') [broken_conf] [clock]
       = Inl ZodError"
proof -
  note t = build_drops_unresolved [of LayoutConfigurationSchema_parse _ _ "\<lambda>k. ''k3x''" "[clock]"]
  have n: "length config0 = 3" by (simp add: config0_def)
  have m: "length (filter (\<lambda>c. \<not> resolves [clock] c) config0) = 2"
    by (simp add: config0_def resolves_config0)
  from t [of config0 config0] LayoutConfigurationSchema_config0
  obtain out where out: "convertConfigToDefaultWidgets LayoutConfigurationSchema_parse (\<lambda>k. ''k3x'') config0 [clock] = Inr out"
    and len: "length out = length config0 - length (filter (\<lambda>c. \<not> resolves [clock] c) config0)"
    and ids: "map gw_id out =
         map (\<lambda>(c, k). Some (the (entry_name c) @ ''__'' @ toString k @ ''k3x''))
           (filter (\<lambda>(c, k). resolves [clock] c) (zip config0 [0..<length config0]))"
    by blast
  from len n m have "length out = 1" by simp
  moreover have "filter (\<lambda>(c, k). resolves [clock] c) (zip config0 [0..<length config0])
      = [(clock_conf, 1)]"
    by (simp add: n) (simp add: config0_def resolves_config0 numeral_3_eq_3)
  with ids have "map gw_id out = [Some ''clock__1k3x'']"
    by (simp add: entry_name_def clock_conf_def toString.simps)
  moreover from t [of "[broken_conf]" "[]"] LayoutConfigurationSchema_broken
  have "convertConfigToDefaultWidgets LayoutConfigurationSchema_parse (\<lambda>k. ''k3x'') [broken_conf] [clock]
       = Inl ZodError"
    by simp
  ultimately show ?thesis using out n m LayoutConfigurationSchema_broken by simp
qed

text \<open>
  C5 as stated fails. Both entries of this configuration resolve to the clock, but
  the width of the second is not a finite number: the schema rejects it and the
  builder throws, where the claim has it return two widgets.
\<close>

theorem build_drops_unresolved_counterexample:
  "length config1 = 2
   \<and> length (filter (\<lambda>c. \<not> resolves [clock] c) config1) = 0
   \<and> convertConfigToDefaultWidgets LayoutConfigurationSchema_parse (\<lambda>k. ''k3x'') config1 [clock]
       = Inl ZodError"
proof -
  have "length config1 = 2"
    by (simp add: config1_def)
  moreover have "length (filter (\<lambda>c. \<not> resolves [clock] c) config1) = 0"
    by (simp add: config1_def resolves_broken resolves_config0)
  ultimately show ?thesis
    using convertConfig_config1 by simp
qed

section \<open>The handlers\<close>

lemma handleLayoutChange_locked:
  "\<not> editMode s \<Longrightarrow> handleLayoutChange J widgets newLayout s = s"
  by (simp add: handleLayoutChange_def)

lemma layout_changes_locked:
  "\<not> editMode s \<Longrightarrow> foldl (\<lambda>s (ws, nl). handleLayoutChange J ws nl s) s events = s"
  by (induction events) (auto simp add: handleLayoutChange_locked)

text \<open>
  C6. Out of edit mode, any sequence of layout changes, from whatever render and with
  whatever new layout, leaves the state as it was; the state after
  \<^verbatim>\<open>changeEditMode(false)\<close> is one such state.
\<close>

theorem layout_change_ignored:
  "(\<not> editMode s \<longrightarrow> foldl (\<lambda>s (ws, nl). handleLayoutChange J ws nl s) s events = s)
   \<and> foldl (\<lambda>s (ws, nl). handleLayoutChange J ws nl s) (changeEditMode J widgets False s) events
       = changeEditMode J widgets False s"
proof -
  have "\<not> editMode (changeEditMode J widgets False s)"
    by (simp add: changeEditMode_def setWidgets_def)
  then show ?thesis
    by (simp add: layout_changes_locked)
qed

theorem layout_change_ignored_witness:
  "\<not> editMode state0
   \<and> foldl (\<lambda>s (ws, nl). handleLayoutChange JSON0 ws nl s) state0
        [([clock_widget (Finite 0) False], [clock_layout (Finite 7) True]), ([], [])] = state0"
  using layout_change_ignored [of state0 JSON0
      "[([clock_widget (Finite 0) False], [clock_layout (Finite 7) True]), ([], [])]"]
  by (simp add: state0_def)

text \<open>
  C7. A removal writes the list without the widgets of the removed id to the store
  and leaves the edit mode; when JSON can hold that list and \<^verbatim>\<open>JSON.parse\<close> reads
  the written text back, it is the list the hook returns afterwards, whatever its
  default. The list has no widget with the removed id; it is a subsequence of the
  list before, so the order of the others is kept; every widget with another id
  occurs in it as often as before; and when no widget has the id the list is the one
  before.
\<close>

theorem remove_widget:
  "homeSnapshot (handleRemove J widgets widgetId s)
     = Present (stringify J (grid_toJSON
         \<lparr>version = 1, pages_default = handleRemove_widgets widgets widgetId\<rparr>))
   \<and> editMode (handleRemove J widgets widgetId s) = editMode s
   \<and> (parse J (stringify J (grid_toJSON
           \<lparr>version = 1, pages_default = handleRemove_widgets widgets widgetId\<rparr>))
         = Some (grid_toJSON \<lparr>version = 1, pages_default = handleRemove_widgets widgets widgetId\<rparr>)
       \<and> list_all serialisable (handleRemove_widgets widgets widgetId) \<longrightarrow>
       useHomeStorage J (homeSnapshot (handleRemove J widgets widgetId s)) d
         = handleRemove_widgets widgets widgetId)
   \<and> (\<forall>w \<in> set (handleRemove_widgets widgets widgetId). gw_id w \<noteq> Some widgetId)
   \<and> subseq (handleRemove_widgets widgets widgetId) widgets
   \<and> (\<forall>w. gw_id w \<noteq> Some widgetId \<longrightarrow>
         count_list (handleRemove_widgets widgets widgetId) w = count_list widgets w)
   \<and> filter (\<lambda>w. gw_id w \<noteq> Some widgetId) (handleRemove_widgets widgets widgetId)
       = filter (\<lambda>w. gw_id w \<noteq> Some widgetId) widgets
   \<and> (Some widgetId \<notin> gw_id ` set widgets \<longrightarrow> handleRemove_widgets widgets widgetId = widgets)"
proof (intro conjI)
  show w: "homeSnapshot (handleRemove J widgets widgetId s)
     = Present (stringify J (grid_toJSON
         \<lparr>version = 1, pages_default = handleRemove_widgets widgets widgetId\<rparr>))"
    by (simp add: handleRemove_def homeSnapshot_setWidgets)
  show "editMode (handleRemove J widgets widgetId s) = editMode s"
    by (simp add: handleRemove_def setWidgets_def)
  show "parse J (stringify J (grid_toJSON
           \<lparr>version = 1, pages_default = handleRemove_widgets widgets widgetId\<rparr>))
         = Some (grid_toJSON \<lparr>version = 1, pages_default = handleRemove_widgets widgets widgetId\<rparr>)
       \<and> list_all serialisable (handleRemove_widgets widgets widgetId) \<longrightarrow>
       useHomeStorage J (homeSnapshot (handleRemove J widgets widgetId s)) d
         = handleRemove_widgets widgets widgetId"
    using loaded_after_write [OF w] by blast
  show "\<forall>w \<in> set (handleRemove_widgets widgets widgetId). gw_id w \<noteq> Some widgetId"
    by (simp add: handleRemove_widgets_def)
  show "subseq (handleRemove_widgets widgets widgetId) widgets"
    by (simp add: handleRemove_widgets_def)
  show "\<forall>w. gw_id w \<noteq> Some widgetId \<longrightarrow>
         count_list (handleRemove_widgets widgets widgetId) w = count_list widgets w"
    unfolding handleRemove_widgets_def
    by (induction widgets) auto
  show "filter (\<lambda>w. gw_id w \<noteq> Some widgetId) (handleRemove_widgets widgets widgetId)
       = filter (\<lambda>w. gw_id w \<noteq> Some widgetId) widgets"
    by (simp add: handleRemove_widgets_def)
  show "Some widgetId \<notin> gw_id ` set widgets \<longrightarrow> handleRemove_widgets widgets widgetId = widgets"
    by (force simp add: handleRemove_widgets_def filter_id_conv)
qed

theorem remove_widget_witness:
  "handleRemove_widgets [clock_widget (Finite 0) False, weather_widget] ''weather__2p0q''
     = [clock_widget (Finite 0) False]
   \<and> homeSnapshot (handleRemove JSON0 [clock_widget (Finite 0) False, weather_widget] ''weather__2p0q'' state0)
       = Present (clock_text ''0'')
   \<and> useHomeStorage JSON0
        (homeSnapshot (handleRemove JSON0 [clock_widget (Finite 0) False, weather_widget] ''weather__2p0q'' state0))
        [weather_widget]
       = [clock_widget (Finite 0) False]
   \<and> weather_widget \<notin> set (handleRemove_widgets [clock_widget (Finite 0) False, weather_widget] ''weather__2p0q'')
   \<and> handleRemove_widgets [clock_widget (Finite 0) False, weather_widget] ''calendar__3x1y''
       = [clock_widget (Finite 0) False, weather_widget]"
proof -
  let ?ws = "[clock_widget (Finite 0) False, weather_widget]"
  let ?out = "[clock_widget (Finite 0) False]"
  have ids: "gw_id (clock_widget (Finite 0) False) = Some ''clock__1k3x''"
    "gw_id weather_widget = Some ''weather__2p0q''"
    by (simp_all add: clock_widget_def weather_widget_def)
  have out: "handleRemove_widgets ?ws ''weather__2p0q'' = ?out"
    by (simp add: handleRemove_widgets_def ids)
  have rt: "parse JSON0 (stringify JSON0 (grid_toJSON \<lparr>version = 1, pages_default = ?out\<rparr>))
        = Some (grid_toJSON \<lparr>version = 1, pages_default = ?out\<rparr>)"
    by (simp only: grid_toJSON_clock stringify_clock parse_clock)
  have ser: "list_all serialisable ?out"
    by (simp add: serialisable_clock)
  note t = remove_widget [of JSON0 ?ws "''weather__2p0q''" state0 "[weather_widget]"]
  from t [THEN conjunct1]
  have 1: "homeSnapshot (handleRemove JSON0 ?ws ''weather__2p0q'' state0) = Present (clock_text ''0'')"
    by (simp only: out grid_toJSON_clock stringify_clock)
  from t [THEN conjunct2, THEN conjunct2, THEN conjunct1] rt ser
  have 2: "useHomeStorage JSON0 (homeSnapshot (handleRemove JSON0 ?ws ''weather__2p0q'' state0))
        [weather_widget] = ?out"
    by (simp only: out)
  from t [THEN conjunct2, THEN conjunct2, THEN conjunct2, THEN conjunct1]
  have "gw_id weather_widget \<noteq> Some ''weather__2p0q''"
    if "weather_widget \<in> set (handleRemove_widgets ?ws ''weather__2p0q'')"
    using that by (rule bspec)
  with ids have 3: "weather_widget \<notin> set (handleRemove_widgets ?ws ''weather__2p0q'')"
    by auto
  from remove_widget [of JSON0 ?ws "''calendar__3x1y''" state0 "[]", THEN conjunct2, THEN conjunct2,
      THEN conjunct2, THEN conjunct2, THEN conjunct2, THEN conjunct2, THEN conjunct2] ids
  have 4: "handleRemove_widgets ?ws ''calendar__3x1y'' = ?ws"
    by simp
  from out 1 2 3 4 show ?thesis by simp
qed

text \<open>
  C8, as amended. Adding writes the widgets followed by one new widget whose two
  flags equal the edit mode, and leaves the edit mode. \<^verbatim>\<open>changeEditMode(mode)\<close> sets
  the edit mode to \<open>mode\<close> and writes the widgets, each with both flags set to
  \<open>mode\<close> and nothing else changed. In both cases the hook returns the written list
  afterwards when JSON can hold it and \<^verbatim>\<open>JSON.parse\<close> reads the text back. The
  builder sets both flags to false, whatever the edit mode. A layout change in edit
  mode writes the layouts of the grid engine as they come, flags included.
\<close>

theorem flags_by_operation:
  "homeSnapshot (handleAdd J random widgets widget s)
     = Present (stringify J (grid_toJSON
         \<lparr>version = 1, pages_default = handleAdd_widgets (editMode s) random widgets widget\<rparr>))
   \<and> (\<exists>g. handleAdd_widgets (editMode s) random widgets widget = widgets @ [g]
        \<and> l_isDraggable (gw_layout g) = editMode s \<and> l_isResizable (gw_layout g) = editMode s)
   \<and> editMode (handleAdd J random widgets widget s) = editMode s
   \<and> (parse J (stringify J (grid_toJSON
           \<lparr>version = 1, pages_default = handleAdd_widgets (editMode s) random widgets widget\<rparr>))
         = Some (grid_toJSON
           \<lparr>version = 1, pages_default = handleAdd_widgets (editMode s) random widgets widget\<rparr>)
       \<and> list_all serialisable (handleAdd_widgets (editMode s) random widgets widget) \<longrightarrow>
       useHomeStorage J (homeSnapshot (handleAdd J random widgets widget s)) d
         = handleAdd_widgets (editMode s) random widgets widget)
   \<and> editMode (changeEditMode J widgets mode s) = mode
   \<and> homeSnapshot (changeEditMode J widgets mode s)
       = Present (stringify J (grid_toJSON
           \<lparr>version = 1, pages_default = changeEditMode_widgets widgets mode\<rparr>))
   \<and> length (changeEditMode_widgets widgets mode) = length widgets
   \<and> (\<forall>k < length widgets.
         changeEditMode_widgets widgets mode ! k
           = (widgets ! k)\<lparr>gw_layout :=
               (gw_layout (widgets ! k))\<lparr>l_isDraggable := mode, l_isResizable := mode\<rparr>\<rparr>)
   \<and> (\<forall>g \<in> set (changeEditMode_widgets widgets mode).
         l_isDraggable (gw_layout g) = mode \<and> l_isResizable (gw_layout g) = mode)
   \<and> (parse J (stringify J (grid_toJSON
           \<lparr>version = 1, pages_default = changeEditMode_widgets widgets mode\<rparr>))
         = Some (grid_toJSON \<lparr>version = 1, pages_default = changeEditMode_widgets widgets mode\<rparr>)
       \<and> list_all serialisable (changeEditMode_widgets widgets mode) \<longrightarrow>
       useHomeStorage J (homeSnapshot (changeEditMode J widgets mode s)) d
         = changeEditMode_widgets widgets mode)
   \<and> (convertConfigToDefaultWidgets schema rnd config availableWidgets = Inr out \<longrightarrow>
        (\<forall>g \<in> set out. \<not> l_isDraggable (gw_layout g) \<and> \<not> l_isResizable (gw_layout g)))
   \<and> map gw_layout (newWidgets widgets newLayout) = newLayout
   \<and> (editMode s \<longrightarrow>
        homeSnapshot (handleLayoutChange J widgets newLayout s)
          = Present (stringify J (grid_toJSON
              \<lparr>version = 1, pages_default = newWidgets widgets newLayout\<rparr>)))"
proof (intro conjI)
  show a: "homeSnapshot (handleAdd J random widgets widget s)
     = Present (stringify J (grid_toJSON
         \<lparr>version = 1, pages_default = handleAdd_widgets (editMode s) random widgets widget\<rparr>))"
    by (simp add: handleAdd_def setWidgets_def)
  show "\<exists>g. handleAdd_widgets (editMode s) random widgets widget = widgets @ [g]
        \<and> l_isDraggable (gw_layout g) = editMode s \<and> l_isResizable (gw_layout g) = editMode s"
    by (simp add: handleAdd_widgets_def Let_def)
  show "editMode (handleAdd J random widgets widget s) = editMode s"
    by (simp add: handleAdd_def setWidgets_def)
  show "parse J (stringify J (grid_toJSON
           \<lparr>version = 1, pages_default = handleAdd_widgets (editMode s) random widgets widget\<rparr>))
         = Some (grid_toJSON
           \<lparr>version = 1, pages_default = handleAdd_widgets (editMode s) random widgets widget\<rparr>)
       \<and> list_all serialisable (handleAdd_widgets (editMode s) random widgets widget) \<longrightarrow>
       useHomeStorage J (homeSnapshot (handleAdd J random widgets widget s)) d
         = handleAdd_widgets (editMode s) random widgets widget"
    using loaded_after_write [OF a] by blast
  show "editMode (changeEditMode J widgets mode s) = mode"
    by (simp add: changeEditMode_def setWidgets_def)
  show c: "homeSnapshot (changeEditMode J widgets mode s)
       = Present (stringify J (grid_toJSON
           \<lparr>version = 1, pages_default = changeEditMode_widgets widgets mode\<rparr>))"
    by (simp add: changeEditMode_def setWidgets_def)
  show "length (changeEditMode_widgets widgets mode) = length widgets"
    by (simp add: changeEditMode_widgets_def)
  show "\<forall>k < length widgets.
         changeEditMode_widgets widgets mode ! k
           = (widgets ! k)\<lparr>gw_layout :=
               (gw_layout (widgets ! k))\<lparr>l_isDraggable := mode, l_isResizable := mode\<rparr>\<rparr>"
    by (simp add: changeEditMode_widgets_def)
  show "\<forall>g \<in> set (changeEditMode_widgets widgets mode).
         l_isDraggable (gw_layout g) = mode \<and> l_isResizable (gw_layout g) = mode"
    by (auto simp add: changeEditMode_widgets_def)
  show "parse J (stringify J (grid_toJSON
           \<lparr>version = 1, pages_default = changeEditMode_widgets widgets mode\<rparr>))
         = Some (grid_toJSON \<lparr>version = 1, pages_default = changeEditMode_widgets widgets mode\<rparr>)
       \<and> list_all serialisable (changeEditMode_widgets widgets mode) \<longrightarrow>
       useHomeStorage J (homeSnapshot (changeEditMode J widgets mode s)) d
         = changeEditMode_widgets widgets mode"
    using loaded_after_write [OF c] by blast
  show "map gw_layout (newWidgets widgets newLayout) = newLayout"
    by (induction newLayout) (simp_all add: newWidgets_def split: option.splits)
  show "editMode s \<longrightarrow>
        homeSnapshot (handleLayoutChange J widgets newLayout s)
          = Present (stringify J (grid_toJSON
              \<lparr>version = 1, pages_default = newWidgets widgets newLayout\<rparr>))"
    by (simp add: handleLayoutChange_def setWidgets_def)
  show "convertConfigToDefaultWidgets schema rnd config availableWidgets = Inr out \<longrightarrow>
        (\<forall>g \<in> set out. \<not> l_isDraggable (gw_layout g) \<and> \<not> l_isResizable (gw_layout g))"
  proof (intro impI ballI)
    fix g
    assume built: "convertConfigToDefaultWidgets schema rnd config availableWidgets = Inr out"
      and "g \<in> set out"
    from built obtain ret
      where ret: "Array_map (convertConfig_entry schema rnd availableWidgets) config 0 = Inr ret"
        and out: "out = compact ret"
      by (auto simp add: convertConfigToDefaultWidgets_def split: sum.splits)
    from \<open>g \<in> set out\<close> out have "Some g \<in> set ret"
      by (simp add: set_compact)
    then obtain k where k: "k < length ret" and g: "ret ! k = Some g"
      by (auto simp add: in_set_conv_nth)
    from ret k have k': "k < length config"
      by (simp add: Array_map_length)
    from Array_map_nth [OF ret k'] g
    have "convertConfig_entry schema rnd availableWidgets (config ! k) k = Inr (Some g)"
      by simp
    from convertConfig_entry_Some [OF this]
    show "\<not> l_isDraggable (gw_layout g) \<and> \<not> l_isResizable (gw_layout g)"
      by blast
  qed
qed

theorem flags_by_operation_witness:
  "editMode state1
   \<and> handleAdd_widgets True ''k3x'' [moved_weather] clock = [moved_weather] @ [added_clock]
   \<and> l_isDraggable (gw_layout added_clock) \<and> l_isResizable (gw_layout added_clock)
   \<and> homeSnapshot (handleAdd JSON1 ''k3x'' [moved_weather] clock state1) = Present (moved_text added_text)
   \<and> useHomeStorage JSON1 (homeSnapshot (handleAdd JSON1 ''k3x'' [moved_weather] clock state1)) []
       = [moved_weather, added_clock]
   \<and> \<not> editMode (changeEditMode JSON0 [clock_widget (Finite 0) True] False state1)
   \<and> homeSnapshot (changeEditMode JSON0 [clock_widget (Finite 0) True] False state1)
       = Present (clock_text ''0'')
   \<and> useHomeStorage JSON0 (homeSnapshot (changeEditMode JSON0 [clock_widget (Finite 0) True] False state1)) []
       = [clock_widget (Finite 0) False]
   \<and> convertConfigToDefaultWidgets Some (\<lambda>k. ''k3x'') config0 [clock] = Inr [clock_widget (Finite 0) False]
   \<and> \<not> l_isDraggable (gw_layout (clock_widget (Finite 0) False))
   \<and> \<not> l_isResizable (gw_layout (clock_widget (Finite 0) False))
   \<and> homeSnapshot (handleLayoutChange JSON1 [clock_widget (Finite 0) True, weather_widget]
         [moved_layout ''weather__2p0q''] state1)
       = Present (moved_text [])"
proof -
  have e: "editMode state1" by (simp add: state1_def)
  note add = flags_by_operation [where J = JSON1 and random = "''k3x''" and widgets = "[moved_weather]"
      and widget = clock and s = state1 and d = "[]"]
  note edit = flags_by_operation [where J = JSON0 and widgets = "[clock_widget (Finite 0) True]"
      and mode = False and s = state1 and d = "[]"]
  note build = flags_by_operation [where schema = Some and rnd = "\<lambda>k. ''k3x''" and config = config0
      and availableWidgets = "[clock]" and out = "[clock_widget (Finite 0) False]"]
  note change = flags_by_operation [where J = JSON1 and widgets = "[clock_widget (Finite 0) True, weather_widget]"
      and newLayout = "[moved_layout ''weather__2p0q'']" and s = state1]
  have w: "handleAdd_widgets (editMode state1) ''k3x'' [moved_weather] clock = [moved_weather, added_clock]"
    using e handleAdd_widgets_added by simp
  from add [THEN conjunct1]
  have 1: "homeSnapshot (handleAdd JSON1 ''k3x'' [moved_weather] clock state1) = Present (moved_text added_text)"
    by (simp only: w grid_toJSON_added stringify_added)
  from add [THEN conjunct2, THEN conjunct2, THEN conjunct2, THEN conjunct1] reads_back_added
  have 2: "useHomeStorage JSON1 (homeSnapshot (handleAdd JSON1 ''k3x'' [moved_weather] clock state1)) []
       = [moved_weather, added_clock]"
    by (simp add: w serialisable_moved serialisable_added)
  from edit [THEN conjunct2, THEN conjunct2, THEN conjunct2, THEN conjunct2, THEN conjunct1]
  have 3: "\<not> editMode (changeEditMode JSON0 [clock_widget (Finite 0) True] False state1)"
    by simp
  from edit [THEN conjunct2, THEN conjunct2, THEN conjunct2, THEN conjunct2, THEN conjunct2, THEN conjunct1]
  have 4: "homeSnapshot (changeEditMode JSON0 [clock_widget (Finite 0) True] False state1)
       = Present (clock_text ''0'')"
    by (simp only: changeEditMode_widgets_clock grid_toJSON_clock stringify_clock)
  from edit [THEN conjunct2, THEN conjunct2, THEN conjunct2, THEN conjunct2, THEN conjunct2, THEN conjunct2,
      THEN conjunct2, THEN conjunct2, THEN conjunct2, THEN conjunct1] reads_back_clock
  have 5: "useHomeStorage JSON0 (homeSnapshot (changeEditMode JSON0 [clock_widget (Finite 0) True] False state1)) []
       = [clock_widget (Finite 0) False]"
    by (simp add: changeEditMode_widgets_clock serialisable_clock)
  from build [THEN conjunct2, THEN conjunct2, THEN conjunct2, THEN conjunct2, THEN conjunct2, THEN conjunct2,
      THEN conjunct2, THEN conjunct2, THEN conjunct2, THEN conjunct2, THEN conjunct1] convertConfig_config0
  have 6: "\<not> l_isDraggable (gw_layout (clock_widget (Finite 0) False))
      \<and> \<not> l_isResizable (gw_layout (clock_widget (Finite 0) False))"
    by simp
  from change [THEN conjunct2, THEN conjunct2, THEN conjunct2, THEN conjunct2, THEN conjunct2, THEN conjunct2,
      THEN conjunct2, THEN conjunct2, THEN conjunct2, THEN conjunct2, THEN conjunct2, THEN conjunct2] e
  have 7: "homeSnapshot (handleLayoutChange JSON1 [clock_widget (Finite 0) True, weather_widget]
         [moved_layout ''weather__2p0q''] state1) = Present (moved_text [])"
    by (simp only: newWidgets_moved grid_toJSON_moved stringify_moved simp_thms)
  have 8: "l_isDraggable (gw_layout added_clock) \<and> l_isResizable (gw_layout added_clock)"
    by (simp add: added_clock_def)
  from e handleAdd_widgets_added 1 2 3 4 5 6 7 8 convertConfig_config0 show ?thesis
    by simp
qed

text \<open>
  C8 as stated fails. In edit mode, restoring the default writes the built layout,
  whose flags are false, and the hook returns it; and a layout change writes the
  flags the grid engine sent, here false too.
\<close>

theorem flags_counterexample:
  "editMode state1
   \<and> convertConfigToDefaultWidgets Some (\<lambda>k. ''k3x'') config0 [clock] = Inr [clock_widget (Finite 0) False]
   \<and> homeSnapshot (handleRestoreDefaultConfig JSON0 [clock_widget (Finite 0) False] state1)
       = Present (clock_text ''0'')
   \<and> editMode (handleRestoreDefaultConfig JSON0 [clock_widget (Finite 0) False] state1)
   \<and> useHomeStorage JSON0
        (homeSnapshot (handleRestoreDefaultConfig JSON0 [clock_widget (Finite 0) False] state1)) []
       = [clock_widget (Finite 0) False]
   \<and> l_isDraggable (gw_layout (clock_widget (Finite 0) False)) \<noteq> editMode state1
   \<and> l_isResizable (gw_layout (clock_widget (Finite 0) False)) \<noteq> editMode state1
   \<and> homeSnapshot (handleLayoutChange JSON0 [clock_widget (Finite 0) True] [clock_layout (Finite 0) False] state1)
       = Present (clock_text ''0'')"
proof -
  have e: "editMode state1" by (simp add: state1_def)
  have 1: "homeSnapshot (handleRestoreDefaultConfig JSON0 [clock_widget (Finite 0) False] state1)
       = Present (clock_text ''0'')"
    by (simp only: handleRestoreDefaultConfig_def homeSnapshot_setWidgets grid_toJSON_clock stringify_clock)
  have 2: "editMode (handleRestoreDefaultConfig JSON0 [clock_widget (Finite 0) False] state1)"
    by (simp add: handleRestoreDefaultConfig_def setWidgets_def state1_def)
  have 3: "useHomeStorage JSON0
        (homeSnapshot (handleRestoreDefaultConfig JSON0 [clock_widget (Finite 0) False] state1)) []
       = [clock_widget (Finite 0) False]"
    by (rule loaded_after_write [OF _ reads_back_clock])
      (simp_all add: handleRestoreDefaultConfig_def homeSnapshot_setWidgets serialisable_clock)
  have 4: "l_isDraggable (gw_layout (clock_widget (Finite 0) False)) \<noteq> editMode state1"
    "l_isResizable (gw_layout (clock_widget (Finite 0) False)) \<noteq> editMode state1"
    by (simp_all add: state1_def clock_widget_def clock_layout_def)
  have n: "newWidgets [clock_widget (Finite 0) True] [clock_layout (Finite 0) False]
      = [clock_widget (Finite 0) False]"
    by (simp add: newWidgets_def clock_widget_def clock_layout_def)
  have 5: "homeSnapshot (handleLayoutChange JSON0 [clock_widget (Finite 0) True] [clock_layout (Finite 0) False] state1)
       = Present (clock_text ''0'')"
    using e by (simp only: handleLayoutChange_def if_True homeSnapshot_setWidgets n grid_toJSON_clock stringify_clock)
  from e convertConfig_config0 1 2 3 4 5 show ?thesis
    by simp
qed

text \<open>
  C9. After \<^verbatim>\<open>clearLayout\<close> the hook returns the empty list, and after a following
  \<^verbatim>\<open>handleRestoreDefaultConfig\<close> it returns the default layout of that render,
  whatever was stored before and whatever default the hook is given, provided
  \<^verbatim>\<open>JSON.parse\<close> reads both written texts back and JSON can hold the default
  layout.
\<close>

theorem clear_then_restoreDefault:
  assumes "parse J (stringify J (grid_toJSON \<lparr>version = 1, pages_default = []\<rparr>))
        = Some (grid_toJSON \<lparr>version = 1, pages_default = []\<rparr>)"
    and "parse J (stringify J (grid_toJSON \<lparr>version = 1, pages_default = dflt\<rparr>))
        = Some (grid_toJSON \<lparr>version = 1, pages_default = dflt\<rparr>)"
    and "list_all serialisable dflt"
  shows "useHomeStorage J (homeSnapshot (clearLayout J s)) d = []
     \<and> useHomeStorage J (homeSnapshot (handleRestoreDefaultConfig J dflt (clearLayout J s))) d' = dflt"
proof -
  have "CustomHomepageGridStateV1Schema_parse (grid_toJSON \<lparr>version = 1, pages_default = []\<rparr>)
      = Some \<lparr>version = 1, pages_default = []\<rparr>"
    by (simp add: CustomHomepageGridStateV1Schema_toJSON)
  with assms(1) have 1: "useHomeStorage J (homeSnapshot (clearLayout J s)) d = []"
    by (simp add: useHomeStorage_def useHomeStorage_try_def clearLayout_def setWidgets_def)
  from assms(3)
  have "CustomHomepageGridStateV1Schema_parse (grid_toJSON \<lparr>version = 1, pages_default = dflt\<rparr>)
      = Some \<lparr>version = 1, pages_default = dflt\<rparr>"
    by (simp add: CustomHomepageGridStateV1Schema_toJSON)
  with assms(2)
  have 2: "useHomeStorage J (homeSnapshot (handleRestoreDefaultConfig J dflt (clearLayout J s))) d' = dflt"
    by (simp add: useHomeStorage_def useHomeStorage_try_def handleRestoreDefaultConfig_def setWidgets_def)
  from 1 2 show ?thesis ..
qed

theorem clear_then_restoreDefault_witness:
  "defaultLayout Some (\<lambda>k. ''k3x'') (Some config0) [clock] = Inr [clock_widget (Finite 0) False]
   \<and> useHomeStorage JSON0 (homeSnapshot (clearLayout JSON0 (setWidgets JSON0 [weather_widget] state1))) [weather_widget] = []
   \<and> useHomeStorage JSON0 (homeSnapshot (handleRestoreDefaultConfig JSON0 [clock_widget (Finite 0) False]
        (clearLayout JSON0 (setWidgets JSON0 [weather_widget] state1)))) [] = [clock_widget (Finite 0) False]"
proof -
  have 1: "parse JSON0 (stringify JSON0 (grid_toJSON \<lparr>version = 1, pages_default = []\<rparr>))
        = Some (grid_toJSON \<lparr>version = 1, pages_default = []\<rparr>)"
    by (simp only: grid_toJSON_empty stringify_empty parse_empty)
  have 2: "parse JSON0 (stringify JSON0 (grid_toJSON \<lparr>version = 1, pages_default = [clock_widget (Finite 0) False]\<rparr>))
        = Some (grid_toJSON \<lparr>version = 1, pages_default = [clock_widget (Finite 0) False]\<rparr>)"
    by (simp only: grid_toJSON_clock stringify_clock parse_clock)
  have 3: "list_all serialisable [clock_widget (Finite 0) False]"
    by (simp add: serialisable_clock)
  from clear_then_restoreDefault [OF 1 2 3] convertConfig_config0
  show ?thesis by (simp add: defaultLayout_def)
qed

text \<open>
  C10, as amended. The list a layout change builds has one entry per item of the new
  layout, in that order and with that item as its layout: the first widget with the
  id of the item, or an entry with no id and no settings when no widget has it. No
  widget whose id is missing from the new layout is in it. In edit mode this list is
  written to the store and the edit mode stays; and when JSON can hold the list (so
  every item has found its widget) and \<^verbatim>\<open>JSON.parse\<close> reads the written text back,
  it is the list the hook returns afterwards.
\<close>

theorem layout_change_replaces:
  "length (newWidgets widgets newLayout) = length newLayout
   \<and> map gw_layout (newWidgets widgets newLayout) = newLayout
   \<and> (\<forall>k < length newLayout.
        newWidgets widgets newLayout ! k =
          (case find (\<lambda>w. gw_id w = Some (l_i (newLayout ! k))) widgets of
             None \<Rightarrow> \<lparr>gw_id = None, gw_layout = newLayout ! k, gw_settings = None\<rparr>
           | Some w \<Rightarrow> w\<lparr>gw_layout := newLayout ! k\<rparr>))
   \<and> (\<forall>w \<in> set widgets. \<forall>a. gw_id w = Some a \<and> a \<notin> l_i ` set newLayout \<longrightarrow>
        Some a \<notin> gw_id ` set (newWidgets widgets newLayout))
   \<and> (\<forall>l \<in> set newLayout. Some (l_i l) \<notin> gw_id ` set widgets \<longrightarrow>
        \<lparr>gw_id = None, gw_layout = l, gw_settings = None\<rparr> \<in> set (newWidgets widgets newLayout))
   \<and> (editMode s \<longrightarrow>
        homeSnapshot (handleLayoutChange J widgets newLayout s)
          = Present (stringify J (grid_toJSON
              \<lparr>version = 1, pages_default = newWidgets widgets newLayout\<rparr>))
        \<and> editMode (handleLayoutChange J widgets newLayout s))
   \<and> (editMode s
       \<and> parse J (stringify J (grid_toJSON
             \<lparr>version = 1, pages_default = newWidgets widgets newLayout\<rparr>))
           = Some (grid_toJSON \<lparr>version = 1, pages_default = newWidgets widgets newLayout\<rparr>)
       \<and> list_all serialisable (newWidgets widgets newLayout) \<longrightarrow>
       useHomeStorage J (homeSnapshot (handleLayoutChange J widgets newLayout s)) d
         = newWidgets widgets newLayout)"
proof (intro conjI)
  show "length (newWidgets widgets newLayout) = length newLayout"
    by (simp add: newWidgets_def)
  show "map gw_layout (newWidgets widgets newLayout) = newLayout"
    by (induction newLayout) (simp_all add: newWidgets_def split: option.splits)
  show "\<forall>k < length newLayout.
        newWidgets widgets newLayout ! k =
          (case find (\<lambda>w. gw_id w = Some (l_i (newLayout ! k))) widgets of
             None \<Rightarrow> \<lparr>gw_id = None, gw_layout = newLayout ! k, gw_settings = None\<rparr>
           | Some w \<Rightarrow> w\<lparr>gw_layout := newLayout ! k\<rparr>)"
    by (simp add: newWidgets_def)
  show "\<forall>w \<in> set widgets. \<forall>a. gw_id w = Some a \<and> a \<notin> l_i ` set newLayout \<longrightarrow>
        Some a \<notin> gw_id ` set (newWidgets widgets newLayout)"
  proof (intro ballI allI impI)
    fix w a
    assume "w \<in> set widgets" and a: "gw_id w = Some a \<and> a \<notin> l_i ` set newLayout"
    show "Some a \<notin> gw_id ` set (newWidgets widgets newLayout)"
    proof
      assume "Some a \<in> gw_id ` set (newWidgets widgets newLayout)"
      then obtain l where l: "l \<in> set newLayout"
        and g: "gw_id (case find (\<lambda>w. gw_id w = Some (l_i l)) widgets of
             None \<Rightarrow> \<lparr>gw_id = None, gw_layout = l, gw_settings = None\<rparr>
           | Some w \<Rightarrow> w\<lparr>gw_layout := l\<rparr>) = Some a"
        by (auto simp add: newWidgets_def)
      from g obtain v where v: "find (\<lambda>w. gw_id w = Some (l_i l)) widgets = Some v" and "gw_id v = Some a"
        by (cases "find (\<lambda>w. gw_id w = Some (l_i l)) widgets") simp_all
      with find_SomeD [OF v] have "a = l_i l" by simp
      with l a show False by simp
    qed
  qed
  show "\<forall>l \<in> set newLayout. Some (l_i l) \<notin> gw_id ` set widgets \<longrightarrow>
        \<lparr>gw_id = None, gw_layout = l, gw_settings = None\<rparr> \<in> set (newWidgets widgets newLayout)"
  proof (intro ballI impI)
    fix l
    assume l: "l \<in> set newLayout" and "Some (l_i l) \<notin> gw_id ` set widgets"
    then have "find (\<lambda>w. gw_id w = Some (l_i l)) widgets = None"
      by (force simp add: find_None_iff)
    with l show "\<lparr>gw_id = None, gw_layout = l, gw_settings = None\<rparr> \<in> set (newWidgets widgets newLayout)"
      by (force simp add: newWidgets_def)
  qed
  show "editMode s \<longrightarrow>
        homeSnapshot (handleLayoutChange J widgets newLayout s)
          = Present (stringify J (grid_toJSON
              \<lparr>version = 1, pages_default = newWidgets widgets newLayout\<rparr>))
        \<and> editMode (handleLayoutChange J widgets newLayout s)"
    by (simp add: handleLayoutChange_def setWidgets_def)
  show "editMode s
       \<and> parse J (stringify J (grid_toJSON
             \<lparr>version = 1, pages_default = newWidgets widgets newLayout\<rparr>))
           = Some (grid_toJSON \<lparr>version = 1, pages_default = newWidgets widgets newLayout\<rparr>)
       \<and> list_all serialisable (newWidgets widgets newLayout) \<longrightarrow>
       useHomeStorage J (homeSnapshot (handleLayoutChange J widgets newLayout s)) d
         = newWidgets widgets newLayout"
  proof (intro impI)
    assume h: "editMode s
       \<and> parse J (stringify J (grid_toJSON
             \<lparr>version = 1, pages_default = newWidgets widgets newLayout\<rparr>))
           = Some (grid_toJSON \<lparr>version = 1, pages_default = newWidgets widgets newLayout\<rparr>)
       \<and> list_all serialisable (newWidgets widgets newLayout)"
    then have "homeSnapshot (handleLayoutChange J widgets newLayout s)
          = Present (stringify J (grid_toJSON
              \<lparr>version = 1, pages_default = newWidgets widgets newLayout\<rparr>))"
      by (simp add: handleLayoutChange_def setWidgets_def)
    from loaded_after_write [OF this] h
    show "useHomeStorage J (homeSnapshot (handleLayoutChange J widgets newLayout s)) d
         = newWidgets widgets newLayout"
      by blast
  qed
qed

theorem layout_change_replaces_witness:
  "editMode state1
   \<and> newWidgets [clock_widget (Finite 0) True, weather_widget] [moved_layout ''weather__2p0q'']
       = [moved_weather]
   \<and> Some ''clock__1k3x'' \<notin> gw_id ` set (newWidgets [clock_widget (Finite 0) True, weather_widget]
         [moved_layout ''weather__2p0q''])
   \<and> homeSnapshot (handleLayoutChange JSON1 [clock_widget (Finite 0) True, weather_widget]
         [moved_layout ''weather__2p0q''] state1)
       = Present (moved_text [])
   \<and> useHomeStorage JSON1
        (homeSnapshot (handleLayoutChange JSON1 [clock_widget (Finite 0) True, weather_widget]
           [moved_layout ''weather__2p0q''] state1))
        [clock_widget (Finite 0) True]
       = [moved_weather]
   \<and> layout_only \<in> set (newWidgets [clock_widget (Finite 0) True, weather_widget]
         [moved_layout ''weather__2p0q'', moved_layout ''calendar__3x1y''])"
proof -
  let ?ws = "[clock_widget (Finite 0) True, weather_widget]"
  let ?nl = "[moved_layout ''weather__2p0q'']"
  let ?nl2 = "[moved_layout ''weather__2p0q'', moved_layout ''calendar__3x1y'']"
  have e: "editMode state1" by (simp add: state1_def)
  note t = layout_change_replaces [of ?ws ?nl state1 JSON1 "[clock_widget (Finite 0) True]"]
  note u = layout_change_replaces [of ?ws ?nl2 state1 JSON1 "[]"]
  have ids: "gw_id (clock_widget (Finite 0) True) = Some ''clock__1k3x''"
    "gw_id weather_widget = Some ''weather__2p0q''"
    "''clock__1k3x'' \<notin> l_i ` set ?nl"
    by (simp_all add: clock_widget_def weather_widget_def moved_layout_def)
  from t [THEN conjunct2, THEN conjunct2, THEN conjunct2, THEN conjunct1, THEN bspec,
      of "clock_widget (Finite 0) True", THEN spec, of "''clock__1k3x''"] ids
  have 1: "Some ''clock__1k3x'' \<notin> gw_id ` set (newWidgets ?ws ?nl)"
    by simp
  from t [THEN conjunct2, THEN conjunct2, THEN conjunct2, THEN conjunct2, THEN conjunct2, THEN conjunct1] e
  have 2: "homeSnapshot (handleLayoutChange JSON1 ?ws ?nl state1) = Present (moved_text [])"
    by (simp only: newWidgets_moved grid_toJSON_moved stringify_moved simp_thms)
  from t [THEN conjunct2, THEN conjunct2, THEN conjunct2, THEN conjunct2, THEN conjunct2, THEN conjunct2]
    e reads_back_moved
  have 3: "useHomeStorage JSON1 (homeSnapshot (handleLayoutChange JSON1 ?ws ?nl state1))
        [clock_widget (Finite 0) True] = [moved_weather]"
    by (simp add: newWidgets_moved serialisable_moved)
  have "moved_layout ''calendar__3x1y'' \<in> set ?nl2"
    "Some (l_i (moved_layout ''calendar__3x1y'')) \<notin> gw_id ` set ?ws"
    by (simp_all add: ids moved_layout_def)
  with u [THEN conjunct2, THEN conjunct2, THEN conjunct2, THEN conjunct2, THEN conjunct1, THEN bspec,
      of "moved_layout ''calendar__3x1y''"]
  have 4: "layout_only \<in> set (newWidgets ?ws ?nl2)"
    by (simp add: layout_only_def)
  from e newWidgets_moved 1 2 3 4 show ?thesis
    by simp
qed

text \<open>
  C10 as stated fails. In edit mode, a layout change with an item that matches no
  widget writes an entry without id; the schema rejects the document, and the hook
  returns its default: one widget for two items, and the clock, whose id is not in
  the new layout, is still there.
\<close>

theorem layout_change_replaces_counterexample:
  "editMode state1
   \<and> newWidgets [clock_widget (Finite 0) True, weather_widget]
         [moved_layout ''weather__2p0q'', moved_layout ''calendar__3x1y'']
       = [moved_weather, layout_only]
   \<and> homeSnapshot (handleLayoutChange JSON1 [clock_widget (Finite 0) True, weather_widget]
         [moved_layout ''weather__2p0q'', moved_layout ''calendar__3x1y''] state1)
       = Present (moved_text layout_only_text)
   \<and> parse JSON1 (moved_text layout_only_text) = Some (moved_json [layout_only_json])
   \<and> useHomeStorage JSON1
        (homeSnapshot (handleLayoutChange JSON1 [clock_widget (Finite 0) True, weather_widget]
           [moved_layout ''weather__2p0q'', moved_layout ''calendar__3x1y''] state1))
        [clock_widget (Finite 0) True]
       = [clock_widget (Finite 0) True]
   \<and> ''clock__1k3x'' \<notin> l_i ` set [moved_layout ''weather__2p0q'', moved_layout ''calendar__3x1y'']
   \<and> gw_id (clock_widget (Finite 0) True) = Some ''clock__1k3x''"
proof -
  let ?ws = "[clock_widget (Finite 0) True, weather_widget]"
  let ?nl2 = "[moved_layout ''weather__2p0q'', moved_layout ''calendar__3x1y'']"
  have e: "editMode state1" by (simp add: state1_def)
  have 1: "homeSnapshot (handleLayoutChange JSON1 ?ws ?nl2 state1) = Present (moved_text layout_only_text)"
    using e
    by (simp only: handleLayoutChange_def if_True homeSnapshot_setWidgets newWidgets_layout_only
        grid_toJSON_layout_only stringify_layout_only)
  have 2: "useHomeStorage JSON1 (homeSnapshot (handleLayoutChange JSON1 ?ws ?nl2 state1))
        [clock_widget (Finite 0) True] = [clock_widget (Finite 0) True]"
    by (simp add: 1 useHomeStorage_def useHomeStorage_try_def parse_layout_only Schema_parse_layout_only)
  have 3: "''clock__1k3x'' \<notin> l_i ` set ?nl2" "gw_id (clock_widget (Finite 0) True) = Some ''clock__1k3x''"
    by (simp_all add: moved_layout_def clock_widget_def)
  from e newWidgets_layout_only 1 2 3 parse_layout_only show ?thesis
    by simp
qed

end
